theory Spec2Isabelle
  imports
    Complex_Main
    "HOL-Library.Char_ord"
    "HOL-Library.List_Lexorder"
    "HOL-Library.Product_Lexorder"
    "HOL-Library.Multiset"
begin

section \<open>COVID-19 Global Data Tracker: the notebook as functions on tables\<close>

text \<open>
  The notebook \<^verbatim>\<open>src/index.py\<close> is one linear flow over a pandas table \<^verbatim>\<open>df\<close>:
  load, filter rows, select columns, fill absent counts, derive two ratios, sort,
  then print insights and export. Each statement of the source is a function here, named
  after the variable or the call it embeds.

  Numbers of the table are float64 cells. They are modelled with their special values
  written out: a finite value, the two infinities, and NaN (pandas' marker of an absent
  value). Finite arithmetic is exact rational arithmetic: rounding, overflow to an
  infinity and the sign of zero are not modelled, so a finite result here is the value
  the float approximates.
\<close>

subsection \<open>Float cells\<close>

datatype fval = Fin rat | PInf | NInf | NaN

text \<open>Division of two cells, as numpy divides float64 arrays: no exception, \<open>x / 0\<close> is an
  infinity of the sign of \<open>x\<close>, \<open>0 / 0\<close> and \<open>inf / inf\<close> are NaN, NaN propagates.\<close>

fun fdiv :: "fval \<Rightarrow> fval \<Rightarrow> fval" where
  "fdiv NaN y = NaN"
| "fdiv x NaN = NaN"
| "fdiv (Fin a) (Fin b) =
     (if b \<noteq> 0 then Fin (a / b)
      else if 0 < a then PInf else if a < 0 then NInf else NaN)"
| "fdiv (Fin a) PInf = Fin 0"
| "fdiv (Fin a) NInf = Fin 0"
| "fdiv PInf (Fin b) = (if 0 \<le> b then PInf else NInf)"
| "fdiv NInf (Fin b) = (if 0 \<le> b then NInf else PInf)"
| "fdiv PInf PInf = NaN"
| "fdiv PInf NInf = NaN"
| "fdiv NInf PInf = NaN"
| "fdiv NInf NInf = NaN"

fun fmul :: "fval \<Rightarrow> fval \<Rightarrow> fval" where
  "fmul NaN y = NaN"
| "fmul x NaN = NaN"
| "fmul (Fin a) (Fin b) = Fin (a * b)"
| "fmul (Fin a) PInf = (if 0 < a then PInf else if a < 0 then NInf else NaN)"
| "fmul (Fin a) NInf = (if 0 < a then NInf else if a < 0 then PInf else NaN)"
| "fmul PInf (Fin b) = (if 0 < b then PInf else if b < 0 then NInf else NaN)"
| "fmul NInf (Fin b) = (if 0 < b then NInf else if b < 0 then PInf else NaN)"
| "fmul PInf PInf = PInf"
| "fmul PInf NInf = NInf"
| "fmul NInf PInf = NInf"
| "fmul NInf NInf = PInf"

fun fadd :: "fval \<Rightarrow> fval \<Rightarrow> fval" where
  "fadd NaN y = NaN"
| "fadd x NaN = NaN"
| "fadd (Fin a) (Fin b) = Fin (a + b)"
| "fadd (Fin a) PInf = PInf"
| "fadd (Fin a) NInf = NInf"
| "fadd PInf (Fin b) = PInf"
| "fadd NInf (Fin b) = NInf"
| "fadd PInf PInf = PInf"
| "fadd NInf NInf = NInf"
| "fadd PInf NInf = NaN"
| "fadd NInf PInf = NaN"

text \<open>\<open>flt x y\<close> is the float comparison \<open>x < y\<close>: false as soon as one side is NaN.\<close>

fun flt :: "fval \<Rightarrow> fval \<Rightarrow> bool" where
  "flt NaN y = False"
| "flt x NaN = False"
| "flt (Fin a) (Fin b) = (a < b)"
| "flt (Fin a) PInf = True"
| "flt (Fin a) NInf = False"
| "flt PInf y = False"
| "flt NInf (Fin b) = True"
| "flt NInf PInf = True"
| "flt NInf NInf = False"

definition isnan :: "fval \<Rightarrow> bool" where
  "isnan x = (x = NaN)"

text \<open>\<^verbatim>\<open>Series.fillna(0)\<close> on one cell.\<close>

definition fillna0 :: "fval \<Rightarrow> fval" where
  "fillna0 x = (if isnan x then Fin 0 else x)"

subsection \<open>Rows of the working table\<close>

text \<open>
  After line 67 the table has exactly the thirteen columns of \<^verbatim>\<open>columns_to_keep\<close>;
  lines 76 and 77 add two more. A row of that table is a record with one field per
  column, and \<open>idx\<close>, the row's index label (\<^verbatim>\<open>read_csv\<close> numbers the rows of the file
  from 0, and filtering and sorting keep each row's label). A date is the day number of
  the timestamp \<^verbatim>\<open>pd.to_datetime\<close> yields, so that the difference of two dates is the
  \<^verbatim>\<open>.days\<close> of the source. The two derived columns are NaN until lines 76 and 77 assign
  them.
\<close>

record obs =
  idx :: nat
  date :: int
  location :: string
  total_cases :: fval
  new_cases :: fval
  total_deaths :: fval
  new_deaths :: fval
  total_vaccinations :: fval
  people_vaccinated :: fval
  people_fully_vaccinated :: fval
  population :: fval
  population_density :: fval
  median_age :: fval
  gdp_per_capita :: fval
  case_fatality_rate :: fval
  vaccination_rate :: fval

type_synonym table = "obs list"

text \<open>Lines 70 to 73: \<^verbatim>\<open>df[c] = df[c].fillna(0)\<close> for the four count columns.\<close>

definition fillna_row :: "obs \<Rightarrow> obs" where
  "fillna_row r =
     r\<lparr>total_cases := fillna0 (total_cases r),
       new_cases := fillna0 (new_cases r),
       total_deaths := fillna0 (total_deaths r),
       new_deaths := fillna0 (new_deaths r)\<rparr>"

definition fillna :: "table \<Rightarrow> table" where
  "fillna df = map fillna_row df"

text \<open>Lines 76 and 77, on one row:
  \<^verbatim>\<open>df['case_fatality_rate'] = (df['total_deaths'] / df['total_cases']) * 100\<close> and
  \<^verbatim>\<open>df['vaccination_rate'] = (df['people_vaccinated'] / df['population']) * 100\<close>.
  The column arithmetic of pandas is elementwise on rows of the same label.\<close>

definition derive_row :: "obs \<Rightarrow> obs" where
  "derive_row r =
     r\<lparr>case_fatality_rate := fmul (fdiv (total_deaths r) (total_cases r)) (Fin 100),
       vaccination_rate := fmul (fdiv (people_vaccinated r) (population r)) (Fin 100)\<rparr>"

definition derive :: "table \<Rightarrow> table" where
  "derive df = map derive_row df"

text \<open>Line 80: \<^verbatim>\<open>df = df.sort_values(['location', 'date'])\<close>, a stable sort on the pair
  (location, date), strings compared character by character.\<close>

definition sort_key_of :: "obs \<Rightarrow> string \<times> int" where
  "sort_key_of r = (location r, date r)"

definition sort_values :: "table \<Rightarrow> table" where
  "sort_values df = sort_key sort_key_of df"

subsection \<open>Exceptions\<close>

text \<open>The exceptions the notebook can raise on the paths modelled here. A statement that
  raises returns \<open>Inl\<close> of the exception; nothing after it in the same run is executed.\<close>

datatype exn = FileNotFoundError | NameError | KeyError | ValueError | TypeError

definition and_then :: "exn + 'a \<Rightarrow> ('a \<Rightarrow> exn + 'b) \<Rightarrow> exn + 'b" where
  "and_then m k = (case m of Inl e \<Rightarrow> Inl e | Inr x \<Rightarrow> k x)"

fun collect :: "(exn + 'a) list \<Rightarrow> exn + 'a list" where
  "collect [] = Inr []"
| "collect (m # ms) =
     (case m of Inl e \<Rightarrow> Inl e
      | Inr x \<Rightarrow> (case collect ms of Inl e \<Rightarrow> Inl e | Inr xs \<Rightarrow> Inr (x # xs)))"

subsection \<open>The table as read from the file\<close>

text \<open>
  Before line 67 the table has whatever columns the file has. A frame is the list of its
  column names and its rows, each row a label and one cell per column. A cell is a float
  (NaN when the file leaves it empty), a text, or a date. The cells of the date column
  hold the day number that \<^verbatim>\<open>pd.to_datetime\<close> computes from the text of the file: the
  parsing of a date text is the library's and is not modelled.
\<close>

datatype cell = Num fval | Txt string | Day int

record frame =
  columns :: "string list"
  body :: "(nat \<times> cell list) list"

text \<open>The cell of a row in a named column. A row shorter than the header reads as NaN
  in the columns it lacks, which is how \<^verbatim>\<open>read_csv\<close> pads it.\<close>

definition cell_of :: "string list \<Rightarrow> cell list \<Rightarrow> string \<Rightarrow> cell" where
  "cell_of cols cs c = (case map_of (zip cols cs) c of Some v \<Rightarrow> v | None \<Rightarrow> Num NaN)"

text \<open>Line 32: \<^verbatim>\<open>pd.read_csv('data/owid-covid-data.csv')\<close>. The file system is the
  argument: \<open>None\<close> when the file is absent, else the header and the lines. The rows get
  the labels 0, 1, 2, ...\<close>

type_synonym csv = "string list \<times> cell list list"

definition read_csv :: "csv option \<Rightarrow> exn + frame" where
  "read_csv file =
     (case file of
        None \<Rightarrow> Inl FileNotFoundError
      | Some (header, ls) \<Rightarrow> Inr \<lparr>columns = header, body = zip [0..<length ls] ls\<rparr>)"

text \<open>Line 55: \<^verbatim>\<open>df['date'] = pd.to_datetime(df['date'])\<close>. Reading a column the frame
  does not have raises KeyError; the cells already hold day numbers.\<close>

definition to_datetime :: "frame \<Rightarrow> exn + frame" where
  "to_datetime df = (if ''date'' \<in> set (columns df) then Inr df else Inl KeyError)"

text \<open>Lines 58 and 59: \<^verbatim>\<open>df = df[df['location'].isin(countries_to_include)]\<close>.
  \<^verbatim>\<open>isin\<close> is true of a cell that equals a member of the list; a cell that is not a
  text (an absent location is NaN) equals none. The boolean mask keeps the rows where it
  is true, in their order and with their labels.\<close>

definition countries_to_include :: "string list" where
  "countries_to_include =
     [''United States'', ''India'', ''Brazil'', ''United Kingdom'', ''Germany'',
      ''Kenya'', ''South Africa'']"

definition isin :: "cell \<Rightarrow> string list \<Rightarrow> bool" where
  "isin c wl = (case c of Txt s \<Rightarrow> s \<in> set wl | Num x \<Rightarrow> False | Day d \<Rightarrow> False)"

definition filter_rows :: "string list \<Rightarrow> frame \<Rightarrow> exn + frame" where
  "filter_rows wl df =
     (if ''location'' \<in> set (columns df)
      then Inr (df\<lparr>body :=
             filter (\<lambda>row. isin (cell_of (columns df) (snd row) ''location'') wl) (body df)\<rparr>)
      else Inl KeyError)"

text \<open>Lines 62 to 67: \<^verbatim>\<open>df = df[columns_to_keep]\<close>. Selecting a list of columns raises
  KeyError when one of them is not in the frame; otherwise the result has the listed
  columns, in the order of the list, and every row with its label.\<close>

definition columns_to_keep :: "string list" where
  "columns_to_keep =
     [''date'', ''location'', ''total_cases'', ''new_cases'', ''total_deaths'',
      ''new_deaths'', ''total_vaccinations'', ''people_vaccinated'',
      ''people_fully_vaccinated'', ''population'', ''population_density'',
      ''median_age'', ''gdp_per_capita'']"

definition select_columns :: "string list \<Rightarrow> frame \<Rightarrow> exn + frame" where
  "select_columns wanted df =
     (if set wanted \<subseteq> set (columns df)
      then Inr \<lparr>columns = wanted,
                body = map (\<lambda>row. (fst row, map (cell_of (columns df) (snd row)) wanted))
                         (body df)\<rparr>
      else Inl KeyError)"

text \<open>The filter/project stage: line 59, then line 67.\<close>

definition filter_project :: "string list \<Rightarrow> string list \<Rightarrow> frame \<Rightarrow> exn + frame" where
  "filter_project wl wanted df = and_then (filter_rows wl df) (select_columns wanted)"

text \<open>
  From line 70 on the source reads the thirteen columns by name and computes with them:
  the date as a timestamp, the location as a text, the eleven others as floats. \<open>typed_row\<close>
  reads one row of the frame of line 67 as a record. A row whose cells have other types
  (a text in a count column, an absent date) makes the arithmetic or the comparisons of
  the source raise or yield NaT; such files are outside the model and read as TypeError.
\<close>

definition typed_row :: "nat \<times> cell list \<Rightarrow> exn + obs" where
  "typed_row row =
     (case snd row of
        [Day d, Txt l, Num tc, Num nc, Num td, Num nd, Num tv, Num pv, Num pfv,
         Num pop, Num dens, Num age, Num gdp] \<Rightarrow>
          Inr \<lparr>idx = fst row, date = d, location = l, total_cases = tc, new_cases = nc,
               total_deaths = td, new_deaths = nd, total_vaccinations = tv,
               people_vaccinated = pv, people_fully_vaccinated = pfv, population = pop,
               population_density = dens, median_age = age, gdp_per_capita = gdp,
               case_fatality_rate = NaN, vaccination_rate = NaN\<rparr>
      | _ \<Rightarrow> Inl TypeError)"

definition typed :: "frame \<Rightarrow> exn + table" where
  "typed df = collect (map typed_row (body df))"

text \<open>Lines 55 to 67 for a list of countries \<open>wl\<close>: the table the cleaning starts from.\<close>

definition selected_with :: "string list \<Rightarrow> frame \<Rightarrow> exn + table" where
  "selected_with wl raw =
     and_then (to_datetime raw) (\<lambda>df1.
     and_then (filter_project wl columns_to_keep df1) typed)"

text \<open>Lines 70 to 80 in the order of the source: fill the four count columns, derive the
  two ratios, sort.\<close>

definition clean :: "table \<Rightarrow> table" where
  "clean df = sort_values (derive (fillna df))"

text \<open>Section 2 of the notebook, lines 55 to 80. \<open>cleaning\<close> is the notebook's own run,
  with its constant list of countries.\<close>

definition cleaning_with :: "string list \<Rightarrow> frame \<Rightarrow> exn + table" where
  "cleaning_with wl raw = and_then (selected_with wl raw) (\<lambda>df. Inr (clean df))"

definition cleaning :: "frame \<Rightarrow> exn + table" where
  "cleaning raw = cleaning_with countries_to_include raw"

subsection \<open>Reading the cleaned table: snapshots, groups, extremes\<close>

text \<open>Lines 130 and 205: \<^verbatim>\<open>df['date'].max()\<close>, NaT (\<open>None\<close>) on a table without rows, and
  \<^verbatim>\<open>latest_data = df[df['date'] == df['date'].max()]\<close>. No date equals NaT, so the
  snapshot of a table without rows has no rows.\<close>

definition latest_date :: "table \<Rightarrow> int option" where
  "latest_date df = (case df of [] \<Rightarrow> None | r # rs \<Rightarrow> Some (fold max (map date rs) (date r)))"

definition latest_data :: "table \<Rightarrow> table" where
  "latest_data df =
     (case latest_date df of None \<Rightarrow> [] | Some m \<Rightarrow> filter (\<lambda>r. date r = m) df)"

text \<open>Lines 97, 98, 113 to 116: the sub-table of one country and the 7-day moving average
  of its new cases. \<^verbatim>\<open>unique()\<close> lists the locations in order of first appearance.
  \<^verbatim>\<open>rolling(7).mean()\<close> is NaN at the first six positions, and NaN where the window
  holds a cell that is not finite (pandas turns infinities into NaN before it rolls).\<close>

definition unique_locations :: "table \<Rightarrow> string list" where
  "unique_locations df = rev (remdups (rev (map location df)))"

definition country_data :: "table \<Rightarrow> string \<Rightarrow> table" where
  "country_data df country = filter (\<lambda>r. location r = country) df"

fun finite_cell :: "fval \<Rightarrow> bool" where
  "finite_cell (Fin a) = True"
| "finite_cell x = False"

definition window_mean :: "fval list \<Rightarrow> fval" where
  "window_mean w =
     (if list_all finite_cell w
      then fdiv (fold (\<lambda>v acc. fadd acc v) w (Fin 0)) (Fin (of_nat (length w)))
      else NaN)"

definition rolling_mean :: "nat \<Rightarrow> fval list \<Rightarrow> fval list" where
  "rolling_mean n xs =
     map (\<lambda>i. if i + 1 < n then NaN else window_mean (take n (drop (i + 1 - n) xs)))
       [0..<length xs]"

definition new_cases_trend :: "table \<Rightarrow> (string \<times> int list \<times> fval list) list" where
  "new_cases_trend df =
     map (\<lambda>country.
            (country, map date (country_data df country),
             rolling_mean 7 (map new_cases (country_data df country))))
       (unique_locations df)"

text \<open>\<^verbatim>\<open>df.groupby('location')[col].max()\<close>: one entry per location, the locations in
  ascending order, each with the maximum of the column over the rows of that location.
  The maximum and the sum of pandas skip NaN: the maximum of cells that are all NaN is NaN,
  the sum of no cell is 0.\<close>

definition group_keys :: "table \<Rightarrow> string list" where
  "group_keys df = sort (remdups (map location df))"

definition nanmax :: "fval list \<Rightarrow> fval" where
  "nanmax vs =
     fold (\<lambda>v acc. if isnan v then acc else if isnan acc then v
                     else if flt acc v then v else acc) vs NaN"

definition nansum :: "fval list \<Rightarrow> fval" where
  "nansum vs = fold (\<lambda>v acc. if isnan v then acc else fadd acc v) vs (Fin 0)"

definition groupby_max :: "(obs \<Rightarrow> fval) \<Rightarrow> table \<Rightarrow> (string \<times> fval) list" where
  "groupby_max col df =
     map (\<lambda>k. (k, nanmax (map col (country_data df k)))) (group_keys df)"

text \<open>Lines 206 and 207:
  \<^verbatim>\<open>total_cases_world = df.groupby('location')['total_cases'].max().sum() / 1e6\<close> and
  \<^verbatim>\<open>total_deaths_world = df.groupby('location')['total_deaths'].max().sum() / 1e3\<close>.\<close>

definition total_cases_world :: "table \<Rightarrow> fval" where
  "total_cases_world df = fdiv (nansum (map snd (groupby_max total_cases df))) (Fin 1000000)"

definition total_deaths_world :: "table \<Rightarrow> fval" where
  "total_deaths_world df = fdiv (nansum (map snd (groupby_max total_deaths df))) (Fin 1000)"

text \<open>
  \<^verbatim>\<open>Series.idxmax()\<close>, as pandas 1 and 2 compute it: on a series without entries it raises
  ValueError; otherwise NaN cells are replaced by minus infinity, the position of the
  first maximum is taken, and the answer is that entry's label, or NaN (\<open>None\<close>) when
  every cell was NaN. (pandas 3 raises ValueError in that last case too.)
\<close>

fun first_max :: "nat \<times> fval \<Rightarrow> (nat \<times> fval) list \<Rightarrow> nat" where
  "first_max best [] = fst best"
| "first_max best (p # ps) = first_max (if flt (snd best) (snd p) then p else best) ps"

definition nan_to_ninf :: "fval \<Rightarrow> fval" where
  "nan_to_ninf v = (if isnan v then NInf else v)"

definition idxmax :: "(nat \<times> fval) list \<Rightarrow> exn + nat option" where
  "idxmax s =
     (case map (\<lambda>p. (fst p, nan_to_ninf (snd p))) s of
        [] \<Rightarrow> Inl ValueError
      | p # ps \<Rightarrow>
          if list_all (\<lambda>q. isnan (snd q)) s then Inr None else Inr (Some (first_max p ps)))"

text \<open>\<^verbatim>\<open>latest_data.loc[label]\<close>: the row of that label. A label that is NaN or that no
  row has raises KeyError. When several rows have the label the result is a table, and
  formatting its column with \<^verbatim>\<open>:.1f\<close> on the next line raises TypeError.\<close>

definition loc :: "table \<Rightarrow> nat option \<Rightarrow> exn + obs" where
  "loc df label =
     (case label of
        None \<Rightarrow> Inl KeyError
      | Some i \<Rightarrow>
          (case filter (\<lambda>r. idx r = i) df of
             [] \<Rightarrow> Inl KeyError
           | [r] \<Rightarrow> Inr r
           | r # r' # rs \<Rightarrow> Inl TypeError))"

text \<open>Lines 214 and 218:
  \<^verbatim>\<open>most_vaccinated = latest_data.loc[latest_data['vaccination_rate'].idxmax()]\<close> and
  \<^verbatim>\<open>highest_fatality = latest_data.loc[latest_data['case_fatality_rate'].idxmax()]\<close>.\<close>

definition row_of_max :: "(obs \<Rightarrow> fval) \<Rightarrow> table \<Rightarrow> exn + obs" where
  "row_of_max col snapshot =
     and_then (idxmax (map (\<lambda>r. (idx r, col r)) snapshot)) (loc snapshot)"

definition most_vaccinated :: "table \<Rightarrow> exn + obs" where
  "most_vaccinated df = row_of_max vaccination_rate (latest_data df)"

definition highest_fatality :: "table \<Rightarrow> exn + obs" where
  "highest_fatality df = row_of_max case_fatality_rate (latest_data df)"

text \<open>Lines 222 to 225:
  \<^verbatim>\<open>first_cases = df[df['total_cases'] > 0].groupby('location')['date'].min()\<close>, one entry
  per location that has a row with a positive count, and the loop that turns each entry
  into \<^verbatim>\<open>(latest_date - date).days\<close>.\<close>

fun least :: "int list \<Rightarrow> int option" where
  "least [] = None"
| "least (d # ds) = Some (fold min ds d)"

definition first_cases :: "table \<Rightarrow> (string \<times> int) list" where
  "first_cases df =
     (let positive = filter (\<lambda>r. flt (Fin 0) (total_cases r)) df
      in concat (map (\<lambda>k. case least (map date (country_data positive k)) of
                             None \<Rightarrow> [] | Some d \<Rightarrow> [(k, d)])
                   (group_keys positive)))"

definition days_reporting :: "table \<Rightarrow> (string \<times> int) list" where
  "days_reporting df =
     (case latest_date df of
        None \<Rightarrow> []
      | Some latest \<Rightarrow> map (\<lambda>p. (fst p, latest - snd p)) (first_cases df))"

subsection \<open>The run of the notebook\<close>

text \<open>
  What a run leaves behind: the lines it prints and the files it writes, in order, and the
  exception that ended it, if one did. The notebook is run from top to bottom and stops
  at the first exception no \<^verbatim>\<open>except\<close> clause catches. The charts and the tables shown
  with \<^verbatim>\<open>display\<close> read \<^verbatim>\<open>df\<close> and \<^verbatim>\<open>latest_data\<close> without assigning them; they are
  taken to succeed and are not part of the output modelled here.
\<close>

datatype line =
    DataLoaded
  | DataFileNotFound
  | DatasetShape nat nat
  | CleanedShape nat nat
  | KeyInsights int
  | TotalCases fval
  | TotalDeaths fval
  | HighestVaccination string fval
  | HighestFatality string fval
  | Reporting string int
  | ToCsv string table
  | AnalysisComplete

type_synonym outcome = "line list \<times> exn option"

text \<open>Lines 31 to 35. The \<^verbatim>\<open>try\<close> catches FileNotFoundError only, prints the message and
  goes on; \<^verbatim>\<open>df\<close> is then not bound (\<open>None\<close>).\<close>

definition load :: "csv option \<Rightarrow> line list \<times> (exn + frame option)" where
  "load file =
     (case read_csv file of
        Inr df \<Rightarrow> ([DataLoaded], Inr (Some df))
      | Inl e \<Rightarrow> if e = FileNotFoundError then ([DataFileNotFound], Inr None) else ([], Inl e))"

text \<open>Line 38: \<^verbatim>\<open>print(f"\nDataset shape: {df.shape}")\<close>. Reading a name that is not
  bound raises NameError.\<close>

definition dataset_shape :: "frame option \<Rightarrow> exn + line" where
  "dataset_shape v =
     (case v of None \<Rightarrow> Inl NameError
      | Some df \<Rightarrow> Inr (DatasetShape (length (body df)) (length (columns df))))"

text \<open>Lines 205 to 225, the cell of the key insights. The header formats
  \<^verbatim>\<open>latest_date\<close> with \<^verbatim>\<open>strftime\<close>, which NaT does not support (ValueError). Each
  \<^verbatim>\<open>print\<close> comes after the statement that computes its value, so an exception leaves
  the lines printed so far and skips the rest of the cell.\<close>

definition insights :: "table \<Rightarrow> outcome" where
  "insights df =
     (case latest_date df of
        None \<Rightarrow> ([], Some ValueError)
      | Some latest \<Rightarrow>
          (let totals = [KeyInsights latest, TotalCases (total_cases_world df),
                         TotalDeaths (total_deaths_world df)]
           in case most_vaccinated df of
                Inl e \<Rightarrow> (totals, Some e)
              | Inr mv \<Rightarrow>
                  (let third = [HighestVaccination (location mv) (vaccination_rate mv)]
                   in case highest_fatality df of
                        Inl e \<Rightarrow> (totals @ third, Some e)
                      | Inr hf \<Rightarrow>
                          (totals @ third
                             @ [HighestFatality (location hf) (case_fatality_rate hf)]
                             @ map (\<lambda>p. Reporting (fst p) (snd p)) (days_reporting df),
                           None))))"

text \<open>Lines 232 to 237: the two exports and the closing line. A file written is recorded
  as the name and the table written.\<close>

definition export :: "table \<Rightarrow> line list" where
  "export df =
     [ToCsv ''data/covid_cleaned_data.csv'' df,
      ToCsv ''data/covid_latest_snapshot.csv'' (latest_data df),
      AnalysisComplete]"

text \<open>The whole run. The name \<^verbatim>\<open>df\<close> is read at line 38 and again from line 55 on; each
  read of it raises NameError while it is not bound.\<close>

definition run :: "csv option \<Rightarrow> outcome" where
  "run file =
     (case load file of
        (out1, Inl e) \<Rightarrow> (out1, Some e)
      | (out1, Inr v) \<Rightarrow>
          (case dataset_shape v of
             Inl e \<Rightarrow> (out1, Some e)
           | Inr shape \<Rightarrow>
               (case and_then (case v of None \<Rightarrow> Inl NameError | Some raw \<Rightarrow> Inr raw)
                       cleaning of
                  Inl e \<Rightarrow> (out1 @ [shape], Some e)
                | Inr df \<Rightarrow>
                    (let out2 = out1 @ [shape, CleanedShape (length df) 15]
                     in case insights df of
                          (out3, Some e) \<Rightarrow> (out2 @ out3, Some e)
                        | (out3, None) \<Rightarrow> (out2 @ out3 @ export df, None)))))"

subsection \<open>The words of the spec\<close>

text \<open>Three notions the spec uses, defined from its words and not from the source, to
  compare the source with.\<close>

text \<open>Sorted by location ascending, then by date ascending: of two rows, the earlier one
  in the table has the smaller location, or the same location and a date that is not
  later.\<close>

definition sorted_by_location_date :: "table \<Rightarrow> bool" where
  "sorted_by_location_date df =
     sorted_wrt (\<lambda>a b. location a < location b
                    \<or> (location a = location b \<and> date a \<le> date b)) df"


text \<open>The sum, over the entities of the table, of each entity's maximum value of a
  cumulative column across all its rows, as the spec words it. It is meant for tables
  whose cells in that column are finite, and for the entities of the table; \<open>fin_value\<close>
  is the number a finite cell holds.\<close>

fun fin_value :: "fval \<Rightarrow> rat" where
  "fin_value (Fin a) = a"
| "fin_value x = 0"

definition max_over_history :: "(obs \<Rightarrow> fval) \<Rightarrow> table \<Rightarrow> string \<Rightarrow> rat" where
  "max_over_history col df e = Max ((\<lambda>r. fin_value (col r)) ` {r \<in> set df. location r = e})"

definition sum_of_entity_maxima :: "(obs \<Rightarrow> fval) \<Rightarrow> table \<Rightarrow> rat" where
  "sum_of_entity_maxima col df = (\<Sum>e \<in> location ` set df. max_over_history col df e)"

subsection \<open>Example files\<close>

text \<open>
  Small files used to run the definitions. \<open>csv_line\<close> is one line of a file that has
  exactly the thirteen columns of \<^verbatim>\<open>columns_to_keep\<close>: its date, location, total cases,
  total deaths, people vaccinated and population are given, its other cells are empty.
  Day 18628 is 2021-01-01 and day 18629 is 2021-01-02.
\<close>

definition csv_line :: "int \<Rightarrow> string \<Rightarrow> fval \<Rightarrow> fval \<Rightarrow> fval \<Rightarrow> fval \<Rightarrow> cell list" where
  "csv_line d l tc td pv pop =
     [Day d, Txt l, Num tc, Num NaN, Num td, Num NaN, Num NaN, Num pv, Num NaN, Num pop,
      Num NaN, Num NaN, Num NaN]"

definition testland_frame :: frame where
  "testland_frame =
     \<lparr>columns = columns_to_keep,
      body = [(0, csv_line 18628 ''Testland'' (Fin 0) (Fin 0) NaN NaN),
              (1, csv_line 18629 ''Testland'' (Fin 100) (Fin 2) NaN NaN)]\<rparr>"

definition testland_cleaned :: table where
  "testland_cleaned =
     [\<lparr>idx = 0, date = 18628, location = ''Testland'', total_cases = Fin 0,
       new_cases = Fin 0, total_deaths = Fin 0, new_deaths = Fin 0,
       total_vaccinations = NaN, people_vaccinated = NaN, people_fully_vaccinated = NaN,
       population = NaN, population_density = NaN, median_age = NaN, gdp_per_capita = NaN,
       case_fatality_rate = NaN, vaccination_rate = NaN\<rparr>,
      \<lparr>idx = 1, date = 18629, location = ''Testland'', total_cases = Fin 100,
       new_cases = Fin 0, total_deaths = Fin 2, new_deaths = Fin 0,
       total_vaccinations = NaN, people_vaccinated = NaN, people_fully_vaccinated = NaN,
       population = NaN, population_density = NaN, median_age = NaN, gdp_per_capita = NaN,
       case_fatality_rate = Fin 2, vaccination_rate = NaN\<rparr>]"

text \<open>A file with one line: Kenya on 2021-01-01, total cases empty, 5 deaths, a
  population of 1000 and nobody known to be vaccinated; and that line after cleaning.\<close>

definition unknown_cases_frame :: frame where
  "unknown_cases_frame =
     \<lparr>columns = columns_to_keep,
      body = [(0, csv_line 18628 ''Kenya'' NaN (Fin 5) NaN (Fin 1000))]\<rparr>"

definition unknown_cases_cleaned :: obs where
  "unknown_cases_cleaned =
     \<lparr>idx = 0, date = 18628, location = ''Kenya'', total_cases = Fin 0,
      new_cases = Fin 0, total_deaths = Fin 5, new_deaths = Fin 0,
      total_vaccinations = NaN, people_vaccinated = NaN, people_fully_vaccinated = NaN,
      population = Fin 1000, population_density = NaN, median_age = NaN,
      gdp_per_capita = NaN, case_fatality_rate = PInf, vaccination_rate = NaN\<rparr>"

text \<open>A file of five lines: Kenya and India on 2021-01-01 (day 18628) and 2021-01-02
  (day 18629), and one line of a country that is not listed. India's total cases go down
  from the first day to the second. \<open>small_frame\<close> is the file as read, \<open>small_cleaned\<close>
  the table after cleaning.\<close>

definition small_file :: csv where
  "small_file =
     (columns_to_keep,
      [csv_line 18629 ''Kenya'' (Fin 100) (Fin 2) (Fin 250) (Fin 1000),
       csv_line 18628 ''Kenya'' NaN (Fin 5) NaN (Fin 1000),
       csv_line 18629 ''India'' (Fin 3000000) (Fin 0) NaN NaN,
       csv_line 18628 ''India'' (Fin 5000000) (Fin 0) NaN NaN,
       csv_line 18629 ''Testland'' (Fin 1) (Fin 1) NaN NaN])"

definition small_frame :: frame where
  "small_frame = \<lparr>columns = fst small_file, body = zip [0..<5] (snd small_file)\<rparr>"

definition small_cleaned :: table where
  "small_cleaned =
     [\<lparr>idx = 3, date = 18628, location = ''India'', total_cases = Fin 5000000,
       new_cases = Fin 0, total_deaths = Fin 0, new_deaths = Fin 0,
       total_vaccinations = NaN, people_vaccinated = NaN, people_fully_vaccinated = NaN,
       population = NaN, population_density = NaN, median_age = NaN, gdp_per_capita = NaN,
       case_fatality_rate = Fin 0, vaccination_rate = NaN\<rparr>,
      \<lparr>idx = 2, date = 18629, location = ''India'', total_cases = Fin 3000000,
       new_cases = Fin 0, total_deaths = Fin 0, new_deaths = Fin 0,
       total_vaccinations = NaN, people_vaccinated = NaN, people_fully_vaccinated = NaN,
       population = NaN, population_density = NaN, median_age = NaN, gdp_per_capita = NaN,
       case_fatality_rate = Fin 0, vaccination_rate = NaN\<rparr>,
      \<lparr>idx = 1, date = 18628, location = ''Kenya'', total_cases = Fin 0,
       new_cases = Fin 0, total_deaths = Fin 5, new_deaths = Fin 0,
       total_vaccinations = NaN, people_vaccinated = NaN, people_fully_vaccinated = NaN,
       population = Fin 1000, population_density = NaN, median_age = NaN,
       gdp_per_capita = NaN, case_fatality_rate = PInf, vaccination_rate = NaN\<rparr>,
      \<lparr>idx = 0, date = 18629, location = ''Kenya'', total_cases = Fin 100,
       new_cases = Fin 0, total_deaths = Fin 2, new_deaths = Fin 0,
       total_vaccinations = NaN, people_vaccinated = Fin 250, people_fully_vaccinated = NaN,
       population = Fin 1000, population_density = NaN, median_age = NaN,
       gdp_per_capita = NaN, case_fatality_rate = Fin 2, vaccination_rate = Fin 25\<rparr>]"

text \<open>What the run prints for the small file between the shape of the cleaned table and
  the exports.\<close>

definition small_insights :: "line list" where
  "small_insights =
     [KeyInsights 18629, TotalCases (Fin (50001 / 10000)), TotalDeaths (Fin (1 / 200)),
      HighestVaccination ''Kenya'' (Fin 25), HighestFatality ''Kenya'' (Fin 2),
      Reporting ''India'' 1, Reporting ''Kenya'' 0]"

text \<open>Two of the columns, in an order that is not the file's, and what the filter/project
  stage yields of the small file for them.\<close>

definition two_columns :: "string list" where
  "two_columns = [''total_cases'', ''location'']"

definition small_two_columns :: frame where
  "small_two_columns =
     \<lparr>columns = [''total_cases'', ''location''],
      body = [(0, [Num (Fin 100), Txt ''Kenya'']), (1, [Num NaN, Txt ''Kenya'']),
              (2, [Num (Fin 3000000), Txt ''India'']),
              (3, [Num (Fin 5000000), Txt ''India''])]\<rparr>"



text \<open>A file of two lines, both on 2021-01-02: Kenya with its total cases empty, 5 deaths
  and 250 of 1000 vaccinated, India with 100 cases and 2 deaths. Then the frame read from
  it, the cleaned table, and the lines of the insights.\<close>

definition deaths_without_cases_file :: csv where
  "deaths_without_cases_file =
     (columns_to_keep,
      [csv_line 18629 ''Kenya'' NaN (Fin 5) (Fin 250) (Fin 1000),
       csv_line 18629 ''India'' (Fin 100) (Fin 2) NaN NaN])"

definition deaths_without_cases_frame :: frame where
  "deaths_without_cases_frame =
     \<lparr>columns = fst deaths_without_cases_file,
      body = zip [0..<2] (snd deaths_without_cases_file)\<rparr>"

definition deaths_without_cases_cleaned :: table where
  "deaths_without_cases_cleaned =
     [\<lparr>idx = 1, date = 18629, location = ''India'', total_cases = Fin 100,
       new_cases = Fin 0, total_deaths = Fin 2, new_deaths = Fin 0,
       total_vaccinations = NaN, people_vaccinated = NaN, people_fully_vaccinated = NaN,
       population = NaN, population_density = NaN, median_age = NaN, gdp_per_capita = NaN,
       case_fatality_rate = Fin 2, vaccination_rate = NaN\<rparr>,
      \<lparr>idx = 0, date = 18629, location = ''Kenya'', total_cases = Fin 0,
       new_cases = Fin 0, total_deaths = Fin 5, new_deaths = Fin 0,
       total_vaccinations = NaN, people_vaccinated = Fin 250, people_fully_vaccinated = NaN,
       population = Fin 1000, population_density = NaN, median_age = NaN,
       gdp_per_capita = NaN, case_fatality_rate = PInf, vaccination_rate = Fin 25\<rparr>]"

definition deaths_without_cases_insights :: "line list" where
  "deaths_without_cases_insights =
     [KeyInsights 18629, TotalCases (Fin (1 / 10000)), TotalDeaths (Fin (7 / 1000)),
      HighestVaccination ''Kenya'' (Fin 25), HighestFatality ''Kenya'' PInf,
      Reporting ''India'' 0]"

section \<open>Properties\<close>

subsection \<open>Errors and the table of line 67\<close>

lemma and_then_Inr: "and_then m k = Inr y \<longleftrightarrow> (\<exists>x. m = Inr x \<and> k x = Inr y)"
  by (cases m) (auto simp: and_then_def)

lemma collect_Inr: "collect ms = Inr xs \<Longrightarrow> ms = map Inr xs"
  by (induction ms arbitrary: xs) (auto split: sum.splits)

lemma typed_rows:
  assumes "typed df = Inr t" "r \<in> set t"
  shows "\<exists>row \<in> set (body df). typed_row row = Inr r"
proof -
  from assms(1) have "map typed_row (body df) = map Inr t"
    by (simp add: typed_def collect_Inr)
  then have "Inr r \<in> set (map typed_row (body df))"
    using assms(2) by simp
  then show ?thesis by auto
qed

text \<open>A row that \<open>typed_row\<close> accepts holds, field by field, the cells it was read from.\<close>

lemma typed_row_cells:
  assumes "typed_row (i, map f columns_to_keep) = Inr r"
  shows "idx r = i \<and> f ''date'' = Day (date r) \<and> f ''location'' = Txt (location r)
     \<and> f ''total_cases'' = Num (total_cases r) \<and> f ''new_cases'' = Num (new_cases r)
     \<and> f ''total_deaths'' = Num (total_deaths r) \<and> f ''new_deaths'' = Num (new_deaths r)
     \<and> f ''total_vaccinations'' = Num (total_vaccinations r)
     \<and> f ''people_vaccinated'' = Num (people_vaccinated r)
     \<and> f ''people_fully_vaccinated'' = Num (people_fully_vaccinated r)
     \<and> f ''population'' = Num (population r)
     \<and> f ''population_density'' = Num (population_density r)
     \<and> f ''median_age'' = Num (median_age r)
     \<and> f ''gdp_per_capita'' = Num (gdp_per_capita r)
     \<and> case_fatality_rate r = NaN \<and> vaccination_rate r = NaN"
  using assms unfolding typed_row_def columns_to_keep_def
  by (auto split: cell.splits)

text \<open>Every row of the table of line 67 is a row of the file, of a listed country.\<close>

lemma selected_rows:
  assumes "selected_with wl raw = Inr t" "r \<in> set t"
  shows "\<exists>cs. (idx r, cs) \<in> set (body raw)
           \<and> isin (cell_of (columns raw) cs ''location'') wl
           \<and> typed_row (idx r, map (cell_of (columns raw) cs) columns_to_keep) = Inr r"
proof -
  from assms(1) obtain df2 df3 where
    f: "filter_rows wl raw = Inr df2" and s: "select_columns columns_to_keep df2 = Inr df3"
    and t: "typed df3 = Inr t"
    by (auto simp: selected_with_def filter_project_def and_then_Inr to_datetime_def
        split: if_splits)
  from typed_rows[OF t assms(2)] obtain row where
    row: "row \<in> set (body df3)" "typed_row row = Inr r"
    by blast
  from f have df2: "columns df2 = columns raw"
    "body df2 =
       filter (\<lambda>row. isin (cell_of (columns raw) (snd row) ''location'') wl) (body raw)"
    by (auto simp: filter_rows_def split: if_splits)
  from s have df3: "body df3 =
      map (\<lambda>row. (fst row, map (cell_of (columns df2) (snd row)) columns_to_keep)) (body df2)"
    by (auto simp: select_columns_def split: if_splits)
  from row(1) df3 df2 obtain i cs where ics: "(i, cs) \<in> set (body raw)"
    "isin (cell_of (columns raw) cs ''location'') wl"
    "row = (i, map (cell_of (columns raw) cs) columns_to_keep)"
    by auto
  from row(2) ics(3) have "idx r = i"
    using typed_row_cells by blast
  with ics row(2) show ?thesis by auto
qed

subsection \<open>Float cells\<close>

lemma fillna0_not_nan: "fillna0 x \<noteq> NaN"
  by (simp add: fillna0_def isnan_def)

lemma fmul_100_nan: "fmul x (Fin 100) = NaN \<longleftrightarrow> x = NaN"
  by (cases x) auto

subsection \<open>Rows of the cleaned table\<close>

lemma set_clean: "set (clean df) = (derive_row \<circ> fillna_row) ` set df"
  by (simp add: clean_def sort_values_def derive_def fillna_def image_comp)

lemma clean_row_rates:
  assumes "r \<in> set (clean df)"
  shows "case_fatality_rate r = fmul (fdiv (total_deaths r) (total_cases r)) (Fin 100)"
    and "vaccination_rate r = fmul (fdiv (people_vaccinated r) (population r)) (Fin 100)"
  using assms by (auto simp: set_clean derive_row_def fillna_row_def)

lemma cleaning_with_clean:
  "cleaning_with wl raw = Inr df \<longleftrightarrow> (\<exists>t. selected_with wl raw = Inr t \<and> df = clean t)"
  by (auto simp: cleaning_with_def and_then_Inr)

lemma testland_run: "cleaning_with [''Testland''] testland_frame = Inr testland_cleaned"
  by code_simp

lemma unknown_cases_run: "cleaning unknown_cases_frame = Inr [unknown_cases_cleaned]"
  by code_simp

subsection \<open>The case fatality rate of a cleaned row\<close>

text \<open>
  Claim C1 says that the case fatality rate of a cleaned row is undefined exactly when the
  row's cumulative case count is 0 or unknown. The source divides without a guard, so a
  row with no cases and some deaths gets an infinity, which is not the undefined marker.
  What holds (C1 as amended): for every row of the cleaned table whose two cumulative
  counts are finite, the rate is NaN exactly when cases and deaths are both 0 (a count the
  file leaves empty is 0 after cleaning); with 0 cases and deaths that are not 0 it is an
  infinity of the sign of the deaths; otherwise it is 100 times deaths over cases. On the
  two Testland rows of the spec, run with Testland as the listed country, the first row
  gets NaN and the second gets 2.
\<close>

theorem cfr_of_cleaned_row:
  "(\<forall>wl raw df r c d.
      cleaning_with wl raw = Inr df \<and> r \<in> set df
      \<and> total_cases r = Fin c \<and> total_deaths r = Fin d \<longrightarrow>
        (case_fatality_rate r = NaN \<longleftrightarrow> c = 0 \<and> d = 0)
      \<and> (c = 0 \<and> 0 < d \<longrightarrow> case_fatality_rate r = PInf)
      \<and> (c = 0 \<and> d < 0 \<longrightarrow> case_fatality_rate r = NInf)
      \<and> (c \<noteq> 0 \<longrightarrow> case_fatality_rate r = Fin (100 * d / c)))
   \<and> cleaning_with [''Testland''] testland_frame = Inr testland_cleaned
   \<and> map case_fatality_rate testland_cleaned = [NaN, Fin 2]"
proof -
  have "(case_fatality_rate r = NaN \<longleftrightarrow> c = 0 \<and> d = 0)
      \<and> (c = 0 \<and> 0 < d \<longrightarrow> case_fatality_rate r = PInf)
      \<and> (c = 0 \<and> d < 0 \<longrightarrow> case_fatality_rate r = NInf)
      \<and> (c \<noteq> 0 \<longrightarrow> case_fatality_rate r = Fin (100 * d / c))"
    if "cleaning_with wl raw = Inr df" "r \<in> set df"
      "total_cases r = Fin c" "total_deaths r = Fin d"
    for wl raw df r c d
  proof -
    from that(1,2) obtain t where "r \<in> set (clean t)"
      by (auto simp: cleaning_with_clean)
    then have "case_fatality_rate r = fmul (fdiv (Fin d) (Fin c)) (Fin 100)"
      using clean_row_rates(1) that(3,4) by simp
    then show ?thesis by auto
  qed
  moreover have "map case_fatality_rate testland_cleaned = [NaN, Fin 2]"
    by (simp add: testland_cleaned_def)
  ultimately show ?thesis
    using testland_run by blast
qed

text \<open>The amended statement at the Kenya line (cases 0 after cleaning, 5 deaths, rate
  plus infinity) and at the two Testland rows.\<close>

theorem cfr_of_cleaned_row_witness:
  "cleaning_with countries_to_include unknown_cases_frame = Inr [unknown_cases_cleaned]
   \<and> unknown_cases_cleaned \<in> set [unknown_cases_cleaned]
   \<and> total_cases unknown_cases_cleaned = Fin 0
   \<and> total_deaths unknown_cases_cleaned = Fin 5
   \<and> case_fatality_rate unknown_cases_cleaned = PInf
   \<and> cleaning_with [''Testland''] testland_frame = Inr testland_cleaned
   \<and> testland_cleaned ! 0 \<in> set testland_cleaned
   \<and> total_cases (testland_cleaned ! 0) = Fin 0
   \<and> total_deaths (testland_cleaned ! 0) = Fin 0
   \<and> case_fatality_rate (testland_cleaned ! 0) = NaN
   \<and> testland_cleaned ! 1 \<in> set testland_cleaned
   \<and> total_cases (testland_cleaned ! 1) = Fin 100
   \<and> total_deaths (testland_cleaned ! 1) = Fin 2
   \<and> case_fatality_rate (testland_cleaned ! 1) = Fin (100 * 2 / 100)"
proof -
  have run: "cleaning_with countries_to_include unknown_cases_frame
      = Inr [unknown_cases_cleaned]"
    using unknown_cases_run by (simp add: cleaning_def)
  have f: "total_cases unknown_cases_cleaned = Fin 0"
    "total_deaths unknown_cases_cleaned = Fin 5"
    by (simp_all add: unknown_cases_cleaned_def)
  from cfr_of_cleaned_row run f
  have k: "case_fatality_rate unknown_cases_cleaned = PInf"
    by (metis list.set_intros(1) zero_less_numeral)
  have t0: "testland_cleaned ! 0 \<in> set testland_cleaned"
    "total_cases (testland_cleaned ! 0) = Fin 0" "total_deaths (testland_cleaned ! 0) = Fin 0"
    by (simp_all add: testland_cleaned_def)
  have t1: "testland_cleaned ! 1 \<in> set testland_cleaned"
    "total_cases (testland_cleaned ! 1) = Fin 100" "total_deaths (testland_cleaned ! 1) = Fin 2"
    by (simp_all add: testland_cleaned_def)
  from cfr_of_cleaned_row testland_run t0
  have n: "case_fatality_rate (testland_cleaned ! 0) = NaN"
    by blast
  have "(100::rat) \<noteq> 0"
    by simp
  with cfr_of_cleaned_row testland_run t1
  have r: "case_fatality_rate (testland_cleaned ! 1) = Fin (100 * 2 / 100)"
    by blast
  from run f k testland_run t0 n t1 r show ?thesis
    by simp
qed

text \<open>C1 as the spec states it fails on the Kenya line: the file leaves the total cases
  empty, the cleaned row has 0 cases, and its rate is plus infinity, not NaN.\<close>

theorem cfr_undefined_counterexample:
  "cleaning unknown_cases_frame = Inr [unknown_cases_cleaned]
   \<and> cell_of (columns unknown_cases_frame)
        (csv_line 18628 ''Kenya'' NaN (Fin 5) NaN (Fin 1000)) ''total_cases'' = Num NaN
   \<and> total_cases unknown_cases_cleaned = Fin 0
   \<and> case_fatality_rate unknown_cases_cleaned = PInf
   \<and> case_fatality_rate unknown_cases_cleaned \<noteq> NaN"
  by (simp add: unknown_cases_run) code_simp

lemma small_read: "read_csv (Some small_file) = Inr small_frame"
  by code_simp

lemma small_run: "cleaning small_frame = Inr small_cleaned"
  by code_simp

lemma clean_row_origin:
  assumes "r \<in> set (clean t)"
  shows "\<exists>r0 \<in> set t. r = derive_row (fillna_row r0)"
  using assms by (auto simp: set_clean)

subsection \<open>What cleaning fills and what it leaves\<close>

text \<open>
  Claim C2: after the cleaning stage no row has an unknown total_cases, new_cases,
  total_deaths or new_deaths, each being the file's cell with NaN replaced by 0; the seven
  other numeric fields are the file's cells unchanged, so an absent one stays NaN; and the
  arithmetic that follows propagates it: the vaccination rate of a row whose
  people_vaccinated or population is NaN is NaN, not a number computed from 0.
\<close>

theorem cleaning_fills_four_counts_only:
  assumes "cleaning_with wl raw = Inr df" and "r \<in> set df"
  shows "total_cases r \<noteq> NaN \<and> new_cases r \<noteq> NaN
       \<and> total_deaths r \<noteq> NaN \<and> new_deaths r \<noteq> NaN
       \<and> (\<exists>cs. (idx r, cs) \<in> set (body raw)
            \<and> (\<exists>x. cell_of (columns raw) cs ''total_cases'' = Num x
                  \<and> total_cases r = (if x = NaN then Fin 0 else x))
            \<and> (\<exists>x. cell_of (columns raw) cs ''new_cases'' = Num x
                  \<and> new_cases r = (if x = NaN then Fin 0 else x))
            \<and> (\<exists>x. cell_of (columns raw) cs ''total_deaths'' = Num x
                  \<and> total_deaths r = (if x = NaN then Fin 0 else x))
            \<and> (\<exists>x. cell_of (columns raw) cs ''new_deaths'' = Num x
                  \<and> new_deaths r = (if x = NaN then Fin 0 else x))
            \<and> cell_of (columns raw) cs ''total_vaccinations'' = Num (total_vaccinations r)
            \<and> cell_of (columns raw) cs ''people_vaccinated'' = Num (people_vaccinated r)
            \<and> cell_of (columns raw) cs ''people_fully_vaccinated''
                 = Num (people_fully_vaccinated r)
            \<and> cell_of (columns raw) cs ''population'' = Num (population r)
            \<and> cell_of (columns raw) cs ''population_density'' = Num (population_density r)
            \<and> cell_of (columns raw) cs ''median_age'' = Num (median_age r)
            \<and> cell_of (columns raw) cs ''gdp_per_capita'' = Num (gdp_per_capita r))
       \<and> (people_vaccinated r = NaN \<or> population r = NaN \<longrightarrow> vaccination_rate r = NaN)"
proof -
  from assms obtain t where t: "selected_with wl raw = Inr t" and r: "r \<in> set (clean t)"
    by (auto simp: cleaning_with_clean)
  from r obtain r0 where r0: "r0 \<in> set t" "r = derive_row (fillna_row r0)"
    using clean_row_origin by blast
  from selected_rows[OF t r0(1)] obtain cs where cs: "(idx r0, cs) \<in> set (body raw)"
    "typed_row (idx r0, map (cell_of (columns raw) cs) columns_to_keep) = Inr r0"
    by blast
  note cells = typed_row_cells[OF cs(2)]
  have filled: "total_cases r \<noteq> NaN \<and> new_cases r \<noteq> NaN
       \<and> total_deaths r \<noteq> NaN \<and> new_deaths r \<noteq> NaN"
    using r0(2) by (simp add: derive_row_def fillna_row_def fillna0_not_nan)
  have same: "idx r = idx r0" "total_vaccinations r = total_vaccinations r0"
    "people_vaccinated r = people_vaccinated r0"
    "people_fully_vaccinated r = people_fully_vaccinated r0"
    "population r = population r0" "population_density r = population_density r0"
    "median_age r = median_age r0" "gdp_per_capita r = gdp_per_capita r0"
    using r0(2) by (simp_all add: derive_row_def fillna_row_def)
  have four: "total_cases r = (if total_cases r0 = NaN then Fin 0 else total_cases r0)"
    "new_cases r = (if new_cases r0 = NaN then Fin 0 else new_cases r0)"
    "total_deaths r = (if total_deaths r0 = NaN then Fin 0 else total_deaths r0)"
    "new_deaths r = (if new_deaths r0 = NaN then Fin 0 else new_deaths r0)"
    using r0(2) by (simp_all add: derive_row_def fillna_row_def fillna0_def isnan_def)
  have propagates:
    "people_vaccinated r = NaN \<or> population r = NaN \<longrightarrow> vaccination_rate r = NaN"
  proof
    assume a: "people_vaccinated r = NaN \<or> population r = NaN"
    have "fdiv (people_vaccinated r) (population r) = NaN"
      using a by (cases "people_vaccinated r") auto
    then show "vaccination_rate r = NaN"
      using clean_row_rates(2)[OF r] by simp
  qed
  have origin: "\<exists>cs. (idx r, cs) \<in> set (body raw)
            \<and> (\<exists>x. cell_of (columns raw) cs ''total_cases'' = Num x
                  \<and> total_cases r = (if x = NaN then Fin 0 else x))
            \<and> (\<exists>x. cell_of (columns raw) cs ''new_cases'' = Num x
                  \<and> new_cases r = (if x = NaN then Fin 0 else x))
            \<and> (\<exists>x. cell_of (columns raw) cs ''total_deaths'' = Num x
                  \<and> total_deaths r = (if x = NaN then Fin 0 else x))
            \<and> (\<exists>x. cell_of (columns raw) cs ''new_deaths'' = Num x
                  \<and> new_deaths r = (if x = NaN then Fin 0 else x))
            \<and> cell_of (columns raw) cs ''total_vaccinations'' = Num (total_vaccinations r)
            \<and> cell_of (columns raw) cs ''people_vaccinated'' = Num (people_vaccinated r)
            \<and> cell_of (columns raw) cs ''people_fully_vaccinated''
                 = Num (people_fully_vaccinated r)
            \<and> cell_of (columns raw) cs ''population'' = Num (population r)
            \<and> cell_of (columns raw) cs ''population_density'' = Num (population_density r)
            \<and> cell_of (columns raw) cs ''median_age'' = Num (median_age r)
            \<and> cell_of (columns raw) cs ''gdp_per_capita'' = Num (gdp_per_capita r)"
    apply (rule exI[of _ cs])
    using cs(1) cells same four by simp
  from filled origin propagates show ?thesis by blast
qed

text \<open>C2 at the Kenya line: its empty total cases are filled, its empty count of people
  vaccinated stays NaN and makes the vaccination rate NaN, although the population is
  known.\<close>

theorem cleaning_fills_four_counts_only_witness:
  "cleaning_with countries_to_include unknown_cases_frame = Inr [unknown_cases_cleaned]
   \<and> unknown_cases_cleaned \<in> set [unknown_cases_cleaned]
   \<and> total_cases unknown_cases_cleaned \<noteq> NaN
   \<and> people_vaccinated unknown_cases_cleaned = NaN
   \<and> vaccination_rate unknown_cases_cleaned = NaN"
proof -
  have run: "cleaning_with countries_to_include unknown_cases_frame
      = Inr [unknown_cases_cleaned]"
    using unknown_cases_run by (simp add: cleaning_def)
  have m: "unknown_cases_cleaned \<in> set [unknown_cases_cleaned]"
    by simp
  have pv: "people_vaccinated unknown_cases_cleaned = NaN"
    by (simp add: unknown_cases_cleaned_def)
  from cleaning_fills_four_counts_only[OF run m] pv
  have "total_cases unknown_cases_cleaned \<noteq> NaN
      \<and> vaccination_rate unknown_cases_cleaned = NaN"
    by blast
  with run m pv show ?thesis by blast
qed

subsection \<open>The derived metrics are computed row by row\<close>

lemma insort_key_map:
  assumes "\<And>x. f (g x) = f x"
  shows "insort_key f (g x) (map g ys) = map g (insort_key f x ys)"
  by (induction ys) (simp_all add: assms)

lemma sort_key_map:
  assumes "\<And>x. f (g x) = f x"
  shows "sort_key f (map g xs) = map g (sort_key f xs)"
  by (induction xs) (simp_all add: insort_key_map[where f = f and g = g, OF assms])

lemma sort_key_of_derive_row: "sort_key_of (derive_row r) = sort_key_of r"
  by (simp add: sort_key_of_def derive_row_def)

lemma derive_sort_values: "derive (sort_values df) = sort_values (derive df)"
  by (simp add: derive_def sort_values_def sort_key_map sort_key_of_derive_row)

text \<open>
  Claim C3: the metric deriver gives every row its case fatality rate and its vaccination
  rate (people vaccinated over population, times 100) from that row's own fields. The
  result has a row for each row of the input, at the same position; it is therefore
  independent of the order of the rows: reordering the input reorders the output, and
  deriving commutes with the sort of line 80. A row with 250 people vaccinated in a
  population of 1000 gets the rate 25.
\<close>

theorem derive_is_row_local:
  "(\<forall>df. length (derive df) = length df)
   \<and> (\<forall>df i. i < length df \<longrightarrow>
         derive df ! i =
           (df ! i)\<lparr>case_fatality_rate :=
                      fmul (fdiv (total_deaths (df ! i)) (total_cases (df ! i))) (Fin 100),
                    vaccination_rate :=
                      fmul (fdiv (people_vaccinated (df ! i)) (population (df ! i)))
                        (Fin 100)\<rparr>)
   \<and> (\<forall>df df'. mset df = mset df' \<longrightarrow> mset (derive df) = mset (derive df'))
   \<and> (\<forall>df. derive (sort_values df) = sort_values (derive df))
   \<and> (\<forall>r. people_vaccinated r = Fin 250 \<and> population r = Fin 1000 \<longrightarrow>
         vaccination_rate (derive_row r) = Fin 25)"
proof -
  have a: "length (derive df) = length df" for df
    by (simp add: derive_def)
  have b: "derive df ! i =
           (df ! i)\<lparr>case_fatality_rate :=
                      fmul (fdiv (total_deaths (df ! i)) (total_cases (df ! i))) (Fin 100),
                    vaccination_rate :=
                      fmul (fdiv (people_vaccinated (df ! i)) (population (df ! i)))
                        (Fin 100)\<rparr>"
    if "i < length df" for df i
    using that by (simp add: derive_def derive_row_def)
  have c: "mset (derive df) = mset (derive df')" if "mset df = mset df'" for df df'
  proof -
    have "image_mset derive_row (mset df) = image_mset derive_row (mset df')"
      using that by simp
    then show ?thesis by (simp add: derive_def)
  qed
  have d: "vaccination_rate (derive_row r) = Fin 25"
    if "people_vaccinated r = Fin 250 \<and> population r = Fin 1000" for r
    using that by (simp add: derive_row_def)
  from a b c d derive_sort_values show ?thesis by blast
qed

text \<open>C3 on the small file: Kenya's row of the latest date, the fourth of the cleaned
  table, has 250 vaccinated in 1000 and the rate 25; the table reversed derives to the
  same rows.\<close>

theorem derive_is_row_local_witness:
  "cleaning small_frame = Inr small_cleaned
   \<and> (3::nat) < length small_cleaned
   \<and> latest_date small_cleaned = Some (date (small_cleaned ! 3))
   \<and> people_vaccinated (small_cleaned ! 3) = Fin 250
   \<and> population (small_cleaned ! 3) = Fin 1000
   \<and> vaccination_rate (small_cleaned ! 3) = Fin 25
   \<and> vaccination_rate (derive_row (small_cleaned ! 3)) = Fin 25
   \<and> mset (rev small_cleaned) = mset small_cleaned
   \<and> mset (derive (rev small_cleaned)) = mset (derive small_cleaned)"
proof -
  have l: "(3::nat) < length small_cleaned"
    by (simp add: small_cleaned_def)
  have m: "mset (rev small_cleaned) = mset small_cleaned"
    by simp
  have f: "people_vaccinated (small_cleaned ! 3) = Fin 250
      \<and> population (small_cleaned ! 3) = Fin 1000"
    "vaccination_rate (small_cleaned ! 3) = Fin 25"
    by (simp_all add: small_cleaned_def)
  have ld: "latest_date small_cleaned = Some (date (small_cleaned ! 3))"
    by (simp add: small_cleaned_def latest_date_def)
  have e: "vaccination_rate (derive_row (small_cleaned ! 3)) = Fin 25"
    using derive_is_row_local f(1) by blast
  have "mset (derive (rev small_cleaned)) = mset (derive small_cleaned)"
    using derive_is_row_local m by blast
  with small_run l m f e ld show ?thesis by blast
qed

subsection \<open>The order of the working table\<close>

lemma sorted_key_iff: "sorted (map sort_key_of df) \<longleftrightarrow> sorted_by_location_date df"
proof -
  have "(sort_key_of a \<le> sort_key_of b) \<longleftrightarrow>
      (location a < location b \<or> (location a = location b \<and> date a \<le> date b))" for a b
    by (auto simp: sort_key_of_def less_eq_prod_def)
  then show ?thesis
    by (simp add: sorted_map sorted_by_location_date_def)
qed

lemma sorted_clean: "sorted_by_location_date (clean df)"
  by (simp add: clean_def sort_values_def flip: sorted_key_iff)

lemma sorted_latest_data:
  "sorted_by_location_date df \<Longrightarrow> sorted_by_location_date (latest_data df)"
  by (auto simp: latest_data_def sorted_by_location_date_def sorted_wrt_filter split: option.splits)

lemma sorted_country_dates:
  assumes "sorted_by_location_date df"
  shows "sorted (map date (country_data df c))"
proof -
  have "sorted_wrt (\<lambda>a b. location a < location b
                    \<or> (location a = location b \<and> date a \<le> date b)) (country_data df c)"
    using assms by (simp add: country_data_def sorted_by_location_date_def sorted_wrt_filter)
  then have "sorted_wrt (\<lambda>a b. date a \<le> date b) (country_data df c)"
    by (rule sorted_wrt_mono_rel[rotated]) (auto simp: country_data_def)
  then show ?thesis by (simp add: sorted_map)
qed

lemma sorted_derive:
  "sorted_by_location_date (derive df) \<longleftrightarrow> sorted_by_location_date df"
proof -
  have "map sort_key_of (derive df) = map sort_key_of df"
    by (simp add: derive_def sort_key_of_derive_row)
  then show ?thesis by (simp flip: sorted_key_iff)
qed

lemma insights_no_export:
  assumes "insights df = (out, ex)"
  shows "ToCsv name t \<notin> set out"
  using assms by (auto simp: insights_def Let_def split: option.splits sum.splits)

lemma load_cases:
  "load file = (out, v) \<Longrightarrow>
     (file = None \<and> out = [DataFileNotFound] \<and> v = Inr None)
   \<or> (\<exists>raw. read_csv file = Inr raw \<and> out = [DataLoaded] \<and> v = Inr (Some raw))"
  by (auto simp: load_def read_csv_def split: option.splits prod.splits)

lemma run_exports:
  assumes "run file = (out, ex)" "ToCsv name t \<in> set out"
  shows "\<exists>raw df. read_csv file = Inr raw \<and> cleaning raw = Inr df \<and> ex = None
           \<and> (t = df \<or> t = latest_data df)"
proof -
  obtain out1 v where l: "load file = (out1, v)"
    by (cases "load file") auto
  from load_cases[OF l] show ?thesis
  proof
    assume "file = None \<and> out1 = [DataFileNotFound] \<and> v = Inr None"
    with assms l show ?thesis
      by (auto simp: run_def dataset_shape_def)
  next
    assume "\<exists>raw. read_csv file = Inr raw \<and> out1 = [DataLoaded] \<and> v = Inr (Some raw)"
    then obtain raw where raw: "read_csv file = Inr raw" "out1 = [DataLoaded]" "v = Inr (Some raw)"
      by blast
    show ?thesis
    proof (cases "cleaning raw")
      case (Inl e)
      with assms l raw show ?thesis
        by (auto simp: run_def dataset_shape_def and_then_def)
    next
      case (Inr df)
      obtain out3 ex3 where i: "insights df = (out3, ex3)"
        by (cases "insights df") auto
      from insights_no_export[OF i] have no: "ToCsv name t \<notin> set out3" .
      from assms l raw Inr i no show ?thesis
        by (cases ex3) (auto simp: run_def dataset_shape_def and_then_def export_def)
    qed
  qed
qed


lemma small_insights_run: "insights small_cleaned = (small_insights, None)"
  by code_simp

lemma small_whole_run:
  "run (Some small_file) =
     ([DataLoaded, DatasetShape 5 13, CleanedShape 4 15] @ small_insights
        @ export small_cleaned, None)"
proof -
  have "load (Some small_file) = ([DataLoaded], Inr (Some small_frame))"
    by (simp add: load_def small_read)
  moreover have "dataset_shape (Some small_frame) = Inr (DatasetShape 5 13)"
    by code_simp
  moreover have "length small_cleaned = 4"
    by (simp add: small_cleaned_def)
  ultimately show ?thesis
    by (simp add: run_def and_then_def small_run small_insights_run)
qed

text \<open>
  Claim C8: the table that cleaning yields is sorted by location, then date. The order is
  there where the source rolls a window over time: the series of each country that
  lines 113 to 116 hand to the 7-day average is in ascending date order. Deriving the
  metrics keeps the order, the snapshot the insights read is sorted too, and the insights
  and the exports do not assign the table: every table a run writes at its end is sorted.
\<close>

theorem ordering_after_cleaning:
  "(\<forall>wl raw df. cleaning_with wl raw = Inr df \<longrightarrow>
        sorted_by_location_date df
      \<and> sorted_by_location_date (latest_data df)
      \<and> (\<forall>c. sorted (map date (country_data df c)))
      \<and> (\<forall>c ds avg. (c, ds, avg) \<in> set (new_cases_trend df) \<longrightarrow>
            sorted ds \<and> length avg = length ds))
   \<and> (\<forall>df. sorted_by_location_date (derive df) = sorted_by_location_date df)
   \<and> (\<forall>file out ex name t. run file = (out, ex) \<and> ToCsv name t \<in> set out \<longrightarrow>
         sorted_by_location_date t)"
proof -
  have a: "sorted_by_location_date df
      \<and> sorted_by_location_date (latest_data df)
      \<and> (\<forall>c. sorted (map date (country_data df c)))
      \<and> (\<forall>c ds avg. (c, ds, avg) \<in> set (new_cases_trend df) \<longrightarrow>
            sorted ds \<and> length avg = length ds)"
    if "cleaning_with wl raw = Inr df" for wl raw df
  proof -
    from that have s: "sorted_by_location_date df"
      by (auto simp: cleaning_with_clean sorted_clean)
    have "sorted ds \<and> length avg = length ds"
      if "(c, ds, avg) \<in> set (new_cases_trend df)" for c ds avg
      using that sorted_country_dates[OF s]
      by (auto simp: new_cases_trend_def rolling_mean_def)
    with s sorted_latest_data[OF s] sorted_country_dates[OF s] show ?thesis
      by blast
  qed
  have b: "sorted_by_location_date t"
    if "run src = (out, ex) \<and> ToCsv name t \<in> set out" for src out ex name t
  proof -
    from that run_exports obtain raw df where
      df: "cleaning raw = Inr df" "t = df \<or> t = latest_data df"
      by blast
    from df(1) have "sorted_by_location_date df"
      by (auto simp: cleaning_def cleaning_with_clean sorted_clean)
    with df(2) sorted_latest_data show ?thesis
      by blast
  qed
  from a b sorted_derive show ?thesis
    by blast
qed

text \<open>C8 on the small file.\<close>

theorem ordering_after_cleaning_witness:
  "cleaning_with countries_to_include small_frame = Inr small_cleaned
   \<and> sorted_by_location_date small_cleaned
   \<and> sorted (map date (country_data small_cleaned ''India''))
   \<and> run (Some small_file) =
       ([DataLoaded, DatasetShape 5 13, CleanedShape 4 15] @ small_insights
          @ export small_cleaned, None)
   \<and> ToCsv ''data/covid_latest_snapshot.csv'' (latest_data small_cleaned)
       \<in> set ([DataLoaded, DatasetShape 5 13, CleanedShape 4 15] @ small_insights
          @ export small_cleaned)
   \<and> sorted_by_location_date (latest_data small_cleaned)"
proof -
  have run: "cleaning_with countries_to_include small_frame = Inr small_cleaned"
    using small_run by (simp add: cleaning_def)
  have w: "ToCsv ''data/covid_latest_snapshot.csv'' (latest_data small_cleaned)
       \<in> set ([DataLoaded, DatasetShape 5 13, CleanedShape 4 15] @ small_insights
          @ export small_cleaned)"
    by (simp add: export_def)
  from ordering_after_cleaning run
  have "sorted_by_location_date small_cleaned
      \<and> sorted (map date (country_data small_cleaned ''India''))"
    by blast
  moreover from ordering_after_cleaning small_whole_run w
  have "sorted_by_location_date (latest_data small_cleaned)"
    by blast
  ultimately show ?thesis
    using run small_whole_run w by blast
qed

subsection \<open>A missing file\<close>

lemma insights_no_not_found:
  assumes "insights df = (out, ex)"
  shows "DataFileNotFound \<notin> set out"
  using assms by (auto simp: insights_def Let_def split: option.splits sum.splits)

text \<open>
  Claim C7 says that when the input file is absent the loader fails with the
  file-not-found condition and the pipeline does not proceed to any stage that assumes the
  table exists: the program reports the failure and halts. The source attempts this and
  misses the stop. \<^verbatim>\<open>read_csv\<close> raises FileNotFoundError, and the handler of lines 34 and
  35 prints "Data file not found"; but the handler neither raises again nor ends the run,
  so the loader returns normally with no table bound, and the run goes on to line 38,
  a statement that assumes the table exists. That statement raises NameError, and only
  this second, unrelated exception ends the run. What the source does at the absent file
  is stated below: the loader's result is not an error, the exception that ends the run is
  NameError and not the file-not-found condition, the message is the only line printed,
  and a run prints it exactly when the file is absent.
\<close>

theorem missing_file_falls_through:
  "read_csv None = Inl FileNotFoundError
   \<and> load None = ([DataFileNotFound], Inr None)
   \<and> dataset_shape None = Inl NameError
   \<and> run None = ([DataFileNotFound], Some NameError)
   \<and> (\<forall>src out ex. run src = (out, ex) \<longrightarrow> (DataFileNotFound \<in> set out \<longleftrightarrow> src = None))"
proof -
  have absent: "run None = ([DataFileNotFound], Some NameError)"
    by (simp add: read_csv_def load_def dataset_shape_def run_def)
  have present: "DataFileNotFound \<notin> set out" if "run (Some f) = (out, ex)" for f out ex
  proof -
    obtain raw where raw: "read_csv (Some f) = Inr raw"
      by (cases f) (simp add: read_csv_def)
    then have l: "load (Some f) = ([DataLoaded], Inr (Some raw))"
      by (simp add: load_def)
    show ?thesis
    proof (cases "cleaning raw")
      case (Inl e)
      with that l show ?thesis
        by (auto simp: run_def dataset_shape_def and_then_def)
    next
      case (Inr df)
      obtain out3 ex3 where i: "insights df = (out3, ex3)"
        by (cases "insights df") auto
      from insights_no_not_found[OF i] that l Inr i show ?thesis
        by (cases ex3) (auto simp: run_def dataset_shape_def and_then_def export_def)
    qed
  qed
  have "DataFileNotFound \<in> set out \<longleftrightarrow> src = None" if "run src = (out, ex)" for src out ex
  proof (cases src)
    case None
    with that absent have "out = [DataFileNotFound]"
      by simp
    with None show ?thesis by simp
  next
    case (Some f)
    with that present show ?thesis by simp
  qed
  with absent show ?thesis
    by (simp add: read_csv_def load_def dataset_shape_def)
qed

text \<open>The absent file and, the other way round, the small file.\<close>

theorem missing_file_falls_through_witness:
  "run None = ([DataFileNotFound], Some NameError)
   \<and> DataFileNotFound \<in> set [DataFileNotFound]
   \<and> run (Some small_file) =
       ([DataLoaded, DatasetShape 5 13, CleanedShape 4 15] @ small_insights
          @ export small_cleaned, None)
   \<and> DataFileNotFound \<notin> set ([DataLoaded, DatasetShape 5 13, CleanedShape 4 15]
          @ small_insights @ export small_cleaned)"
proof -
  from missing_file_falls_through have a: "run None = ([DataFileNotFound], Some NameError)"
    by blast
  from missing_file_falls_through small_whole_run
  have "DataFileNotFound \<notin> set ([DataLoaded, DatasetShape 5 13, CleanedShape 4 15]
          @ small_insights @ export small_cleaned)"
    by blast
  with a small_whole_run show ?thesis
    by simp
qed

subsection \<open>The filter/project stage\<close>

lemma isin_iff: "isin c wl \<longleftrightarrow> c \<in> Txt ` set wl"
  by (cases c) (auto simp: isin_def)

lemma cell_of_selected:
  assumes "c \<in> set wanted"
  shows "cell_of wanted (map f wanted) c = f c"
proof -
  have "map_of (zip wanted (map f wanted)) c = Some (f c)"
    using assms by (induction wanted) auto
  then show ?thesis by (simp add: cell_of_def)
qed

lemma small_filter_project:
  "filter_project countries_to_include two_columns small_frame = Inr small_two_columns"
  by code_simp

text \<open>
  Claim C9: given a table that has the location column and every requested column, a list
  of countries and a list of column names, the filter/project stage yields a table whose
  columns are the requested names in the requested order, and whose rows are the rows of
  the input whose location is in the list, each cut down to the requested cells: read by
  column name, a row of the output holds the cell its row of the input holds. (The rows
  keep their order and labels, which is more than the claim asks.)
\<close>

theorem filter_project_exact:
  assumes "''location'' \<in> set (columns df)" and "set wanted \<subseteq> set (columns df)"
  shows "\<exists>out. filter_project wl wanted df = Inr out
     \<and> columns out = wanted
     \<and> body out =
         map (\<lambda>row. (fst row, map (cell_of (columns df) (snd row)) wanted))
           (filter (\<lambda>row. cell_of (columns df) (snd row) ''location'' \<in> Txt ` set wl)
              (body df))
     \<and> (\<forall>row \<in> set (body out). length (snd row) = length wanted)
     \<and> (\<forall>row \<in> set (body df). \<forall>c \<in> set wanted.
           cell_of wanted (map (cell_of (columns df) (snd row)) wanted) c
             = cell_of (columns df) (snd row) c)"
proof -
  let ?kept = "filter (\<lambda>row. cell_of (columns df) (snd row) ''location'' \<in> Txt ` set wl)
              (body df)"
  let ?out = "\<lparr>columns = wanted,
      body = map (\<lambda>row. (fst row, map (cell_of (columns df) (snd row)) wanted)) ?kept\<rparr>"
  have "filter_rows wl df = Inr (df\<lparr>body := ?kept\<rparr>)"
    using assms(1) by (simp add: filter_rows_def isin_iff)
  then have "filter_project wl wanted df = Inr ?out"
    using assms(2) by (simp add: filter_project_def and_then_def select_columns_def)
  moreover have "\<forall>row \<in> set (body ?out). length (snd row) = length wanted"
    by auto
  moreover have "\<forall>row \<in> set (body df). \<forall>c \<in> set wanted.
           cell_of wanted (map (cell_of (columns df) (snd row)) wanted) c
             = cell_of (columns df) (snd row) c"
    by (simp add: cell_of_selected)
  ultimately show ?thesis by simp
qed

text \<open>C9 on the small file, for two columns in reversed order: the Testland line is
  dropped, the four others are kept.\<close>

theorem filter_project_exact_witness:
  "''location'' \<in> set (columns small_frame)
   \<and> set two_columns \<subseteq> set (columns small_frame)
   \<and> filter_project countries_to_include two_columns small_frame = Inr small_two_columns
   \<and> columns small_two_columns = two_columns
   \<and> map fst (body small_two_columns) = [0, 1, 2, 3]"
proof -
  have a: "''location'' \<in> set (columns small_frame)"
    by code_simp
  have b: "set two_columns \<subseteq> set (columns small_frame)"
    by code_simp
  from filter_project_exact[OF a b, of countries_to_include] small_filter_project
  have "columns small_two_columns = two_columns"
    by auto
  moreover have "map fst (body small_two_columns) = [0, 1, 2, 3]"
    by (simp add: small_two_columns_def)
  ultimately show ?thesis
    using a b small_filter_project by blast
qed

subsection \<open>Days of reporting\<close>

lemma set_group_keys: "set (group_keys df) = location ` set df"
  by (simp add: group_keys_def)

lemma distinct_group_keys: "distinct (group_keys df)"
  by (simp add: group_keys_def)



lemma fold_max_Max: "fold max ds (d::int) = Max (set (d # ds))"
  by (simp only: Max.set_eq_fold)

lemma latest_date_Max:
  "latest_date df = (if df = [] then None else Some (Max (date ` set df)))"
  by (cases df) (simp_all add: latest_date_def fold_max_Max del: set_simps, simp)









subsection \<open>The totals of the insights\<close>

lemma finite_cells_Fin:
  assumes "list_all (\<lambda>r. finite_cell (col r)) rs"
  shows "\<exists>as. map col rs = map Fin as"
  using assms
proof (induction rs)
  case Nil
  then show ?case by simp
next
  case (Cons r rs)
  then obtain as where as: "map col rs = map Fin as"
    by auto
  from Cons.prems obtain a where "col r = Fin a"
    by (cases "col r") auto
  with as have "map col (r # rs) = map Fin (a # as)"
    by simp
  then show ?case by blast
qed

lemma nanmax_step: "fold (\<lambda>v acc. if isnan v then acc else if isnan acc then v
                     else if flt acc v then v else acc) (map Fin as) (Fin m)
     = Fin (fold max as m)"
  by (induction as arbitrary: m) (auto simp: isnan_def max_def)

lemma nanmax_Fin: "as \<noteq> [] \<Longrightarrow> nanmax (map Fin as) = Fin (Max (set as))"
proof (cases as)
  case Nil
  assume "as \<noteq> []"
  with Nil show ?thesis by simp
next
  case (Cons a as')
  let ?F = "\<lambda>v acc. if isnan v then acc else if isnan acc then v
                     else if flt acc v then v else acc"
  have "?F (Fin a) NaN = Fin a"
    by (simp add: isnan_def)
  then have "nanmax (map Fin (a # as')) = fold ?F (map Fin as') (Fin a)"
    by (simp add: nanmax_def)
  also have "\<dots> = Fin (fold max as' a)"
    by (rule nanmax_step)
  finally show ?thesis
    using Cons by (simp only: Max.set_eq_fold)
qed

lemma nansum_step: "fold (\<lambda>v acc. if isnan v then acc else fadd acc v) (map Fin as) (Fin s)
     = Fin (s + sum_list as)"
  by (induction as arbitrary: s) (auto simp: isnan_def algebra_simps)

lemma nansum_Fin: "nansum (map Fin as) = Fin (sum_list as)"
  by (simp add: nansum_def nansum_step)

lemma group_max_spec:
  assumes "list_all (\<lambda>r. finite_cell (col r)) df" "k \<in> location ` set df"
  shows "nanmax (map col (country_data df k)) = Fin (max_over_history col df k)"
proof -
  from assms(1) have "list_all (\<lambda>r. finite_cell (col r)) (country_data df k)"
    by (auto simp: list_all_iff country_data_def)
  then obtain as where as: "map col (country_data df k) = map Fin as"
    using finite_cells_Fin by blast
  from assms(2) have "country_data df k \<noteq> []"
    by (auto simp: country_data_def filter_empty_conv)
  with as have ne: "as \<noteq> []"
    by auto
  have "map (\<lambda>r. fin_value (col r)) (country_data df k)
      = map fin_value (map col (country_data df k))"
    by (simp add: comp_def)
  also have "\<dots> = map fin_value (map Fin as)"
    by (simp only: as)
  also have "\<dots> = as"
    by (simp add: comp_def)
  finally have "set as = (\<lambda>r. fin_value (col r)) ` set (country_data df k)"
    by (simp flip: set_map)
  then have "set as = (\<lambda>r. fin_value (col r)) ` {r \<in> set df. location r = k}"
    by (simp add: country_data_def)
  with nanmax_Fin[OF ne] as show ?thesis
    by (simp add: max_over_history_def)
qed

lemma groupby_max_sum:
  assumes "list_all (\<lambda>r. finite_cell (col r)) df"
  shows "nansum (map snd (groupby_max col df)) = Fin (sum_of_entity_maxima col df)"
proof -
  have "map snd (groupby_max col df)
      = map (\<lambda>k. nanmax (map col (country_data df k))) (group_keys df)"
    by (simp add: groupby_max_def comp_def)
  also have "\<dots> = map (\<lambda>k. Fin (max_over_history col df k)) (group_keys df)"
    by (rule map_cong[OF refl]) (simp add: group_max_spec[OF assms] set_group_keys)
  also have "\<dots> = map Fin (map (max_over_history col df) (group_keys df))"
    by simp
  finally have "nansum (map snd (groupby_max col df))
      = Fin (sum_list (map (max_over_history col df) (group_keys df)))"
    by (simp only: nansum_Fin)
  also have "sum_list (map (max_over_history col df) (group_keys df))
      = sum_of_entity_maxima col df"
    by (simp add: sum_list_distinct_conv_sum_set distinct_group_keys set_group_keys
        sum_of_entity_maxima_def)
  finally show ?thesis .
qed

text \<open>
  Claim C4 says that the insight extractor computes the aggregate of total cases as the
  sum over the entities of each entity's maximum cumulative case value, and the aggregate
  of deaths likewise. Lines 206 and 207 compute these sums and divide them: the cases by
  one million, the deaths by one thousand. What holds (C4 as amended): for every table
  whose cumulative counts are finite, monotone or not, \<^verbatim>\<open>total_cases_world\<close> is the sum over
  the entities of each entity's maximum cumulative case value across its full history,
  divided by 1000000, and \<^verbatim>\<open>total_deaths_world\<close> is the same sum over the cumulative
  deaths, divided by 1000.
\<close>

theorem world_totals_are_scaled_sums:
  assumes "list_all (\<lambda>r. finite_cell (total_cases r) \<and> finite_cell (total_deaths r)) df"
  shows "total_cases_world df = Fin (sum_of_entity_maxima total_cases df / 1000000)
       \<and> total_deaths_world df = Fin (sum_of_entity_maxima total_deaths df / 1000)"
proof -
  from assms have c: "list_all (\<lambda>r. finite_cell (total_cases r)) df"
    and d: "list_all (\<lambda>r. finite_cell (total_deaths r)) df"
    by (auto simp: list_all_iff)
  have "total_cases_world df
      = fdiv (Fin (sum_of_entity_maxima total_cases df)) (Fin 1000000)"
    by (simp only: total_cases_world_def groupby_max_sum[OF c])
  moreover have "total_deaths_world df
      = fdiv (Fin (sum_of_entity_maxima total_deaths df)) (Fin 1000)"
    by (simp only: total_deaths_world_def groupby_max_sum[OF d])
  ultimately show ?thesis
    by simp
qed

lemma small_totals:
  "total_cases_world small_cleaned = Fin (50001 / 10000)"
  "total_deaths_world small_cleaned = Fin (1 / 200)"
  "list_all (\<lambda>r. finite_cell (total_cases r) \<and> finite_cell (total_deaths r)) small_cleaned"
  by code_simp+

text \<open>The amended C4 on the small file, where India's total cases fall from 5000000 to
  3000000: the sum takes the 5000000 of the first day, not the latest value.\<close>

theorem world_totals_are_scaled_sums_witness:
  "list_all (\<lambda>r. finite_cell (total_cases r) \<and> finite_cell (total_deaths r)) small_cleaned
   \<and> map total_cases (country_data small_cleaned ''India'') = [Fin 5000000, Fin 3000000]
   \<and> total_cases_world small_cleaned = Fin (50001 / 10000)
   \<and> sum_of_entity_maxima total_cases small_cleaned = 5000100
   \<and> total_deaths_world small_cleaned = Fin (1 / 200)
   \<and> sum_of_entity_maxima total_deaths small_cleaned = 5"
proof -
  have i: "map total_cases (country_data small_cleaned ''India'')
      = [Fin 5000000, Fin 3000000]"
    by code_simp
  from world_totals_are_scaled_sums[OF small_totals(3)] small_totals(1,2)
  have "sum_of_entity_maxima total_cases small_cleaned = 5000100
      \<and> sum_of_entity_maxima total_deaths small_cleaned = 5"
    by simp
  with small_totals i show ?thesis
    by blast
qed

text \<open>C4 as the spec states it fails on the small file: the sum of the maxima is 5000100,
  the total the source computes is 5.0001.\<close>

theorem total_is_not_the_plain_sum_counterexample:
  "total_cases_world small_cleaned = Fin (50001 / 10000)
   \<and> sum_of_entity_maxima total_cases small_cleaned = 5000100
   \<and> total_cases_world small_cleaned \<noteq> Fin (sum_of_entity_maxima total_cases small_cleaned)"
proof -
  have "list_all (\<lambda>r. finite_cell (total_cases r)) small_cleaned"
    by code_simp
  from groupby_max_sum[OF this]
  have "total_cases_world small_cleaned
      = fdiv (Fin (sum_of_entity_maxima total_cases small_cleaned)) (Fin 1000000)"
    by (simp only: total_cases_world_def)
  with small_totals(1) have "sum_of_entity_maxima total_cases small_cleaned = 5000100"
    by simp
  with small_totals(1) show ?thesis
    by simp
qed

subsection \<open>The row of a maximum\<close>

lemma not_flt_trans:
  assumes "a \<noteq> NaN" "b \<noteq> NaN" "c \<noteq> NaN" "\<not> flt a b" "\<not> flt b c"
  shows "\<not> flt a c"
  using assms by (cases a; cases b; cases c) auto

lemma flt_trans: "flt a b \<Longrightarrow> flt b c \<Longrightarrow> flt a c"
  by (cases a; cases b; cases c) auto

lemma flt_irrefl: "\<not> flt a a"
  by (cases a) auto


lemma nan_to_ninf_not_nan: "nan_to_ninf v \<noteq> NaN"
  by (simp add: nan_to_ninf_def isnan_def)

lemma first_max_greatest:
  assumes "\<forall>q \<in> set (best # ps). snd q \<noteq> NaN"
  shows "\<exists>q \<in> set (best # ps). fst q = first_max best ps
           \<and> (\<forall>q' \<in> set (best # ps). \<not> flt (snd q) (snd q'))"
  using assms
proof (induction ps arbitrary: best)
  case Nil
  then show ?case by (simp add: flt_irrefl)
next
  case (Cons p ps)
  let ?b = "if flt (snd best) (snd p) then p else best"
  have nn: "\<forall>q \<in> set (?b # ps). snd q \<noteq> NaN"
    using Cons.prems by auto
  from Cons.IH[OF nn] obtain q where q: "q \<in> set (?b # ps)" "fst q = first_max ?b ps"
    "\<forall>q' \<in> set (?b # ps). \<not> flt (snd q) (snd q')"
    by blast
  have qn: "snd q \<noteq> NaN"
    using q(1) Cons.prems by (auto split: if_splits)
  have pn: "snd p \<noteq> NaN" and bn: "snd best \<noteq> NaN"
    using Cons.prems by auto
  have qb: "\<not> flt (snd q) (snd ?b)"
    using q(3) by simp
  have "\<not> flt (snd q) (snd best) \<and> \<not> flt (snd q) (snd p)"
  proof (cases "flt (snd best) (snd p)")
    case True
    then have "\<not> flt (snd q) (snd p)" using qb by simp
    moreover have "\<not> flt (snd q) (snd best)"
      using True calculation flt_trans by blast
    ultimately show ?thesis by simp
  next
    case False
    then have "\<not> flt (snd q) (snd best)" using qb by simp
    with False not_flt_trans[OF qn bn pn] show ?thesis by blast
  qed
  moreover have "q \<in> set (best # p # ps)"
    using q(1) by (auto split: if_splits)
  moreover have "fst q = first_max best (p # ps)"
    using q(2) by simp
  ultimately show ?case
    using q(3) by auto
qed


lemma idxmax_Some:
  assumes "idxmax s = Inr (Some i)"
  shows "\<exists>q \<in> set s. fst q = i
           \<and> (\<forall>q' \<in> set s. \<not> flt (nan_to_ninf (snd q)) (nan_to_ninf (snd q')))"
proof -
  from assms obtain p ps where s: "s = p # ps"
    by (cases s) (auto simp: idxmax_def)
  let ?f = "\<lambda>p. (fst p, nan_to_ninf (snd p))"
  from assms s have i: "i = first_max (?f p) (map ?f ps)"
    by (auto simp: idxmax_def split: if_splits)
  have "\<forall>q \<in> set (?f p # map ?f ps). snd q \<noteq> NaN"
    by (auto simp: nan_to_ninf_not_nan)
  from first_max_greatest[OF this] obtain q where q: "q \<in> set (?f p # map ?f ps)"
    "fst q = i" "\<forall>q' \<in> set (?f p # map ?f ps). \<not> flt (snd q) (snd q')"
    using i by blast
  have "q \<in> ?f ` set s"
    using q(1) s by simp
  then obtain q0 where q0: "q0 \<in> set s" "q = ?f q0"
    by blast
  have "\<not> flt (nan_to_ninf (snd q0)) (nan_to_ninf (snd q'))" if "q' \<in> set s" for q'
  proof -
    from that s have "?f q' \<in> set (?f p # map ?f ps)" by auto
    with q(3) q0(2) show ?thesis by auto
  qed
  with q0 q(2) show ?thesis by auto
qed

lemma row_of_max_Inr:
  assumes "row_of_max col snap = Inr m"
  shows "m \<in> set snap
       \<and> (\<forall>r \<in> set snap. \<not> flt (nan_to_ninf (col m)) (nan_to_ninf (col r)))"
proof -
  from assms obtain l where l: "idxmax (map (\<lambda>r. (idx r, col r)) snap) = Inr l"
    "loc snap l = Inr m"
    by (auto simp: row_of_max_def and_then_Inr)
  from l(2) obtain i where i: "l = Some i" "filter (\<lambda>r. idx r = i) snap = [m]"
    by (auto simp: loc_def split: option.splits list.splits)
  have "m \<in> set (filter (\<lambda>r. idx r = i) snap)"
    by (simp add: i(2))
  then have m: "m \<in> set snap" "idx m = i"
    by simp_all
  from idxmax_Some[OF l(1)[unfolded i(1)]] obtain r0 where r0: "r0 \<in> set snap" "idx r0 = i"
    "\<forall>r \<in> set snap. \<not> flt (nan_to_ninf (col r0)) (nan_to_ninf (col r))"
    by auto
  from r0(1,2) have "r0 \<in> set (filter (\<lambda>r. idx r = i) snap)"
    by simp
  with i(2) have "r0 = m" by simp
  with r0(3) m(1) show ?thesis by simp
qed





subsection \<open>Row labels\<close>






subsection \<open>The country with the highest vaccination rate\<close>








subsection \<open>Deaths without cases\<close>

lemma run_complete:
  assumes "run src = (out, None)"
  shows "\<exists>raw df out3. read_csv src = Inr raw \<and> cleaning raw = Inr df
           \<and> insights df = (out3, None)
           \<and> out = [DataLoaded, DatasetShape (length (body raw)) (length (columns raw)),
                    CleanedShape (length df) 15] @ out3 @ export df"
proof -
  obtain out1 v where l: "load src = (out1, v)"
    by (cases "load src") auto
  from load_cases[OF l] show ?thesis
  proof
    assume "src = None \<and> out1 = [DataFileNotFound] \<and> v = Inr None"
    with assms l show ?thesis
      by (auto simp: run_def dataset_shape_def)
  next
    assume "\<exists>raw. read_csv src = Inr raw \<and> out1 = [DataLoaded] \<and> v = Inr (Some raw)"
    then obtain raw where raw: "read_csv src = Inr raw" "out1 = [DataLoaded]"
      "v = Inr (Some raw)"
      by blast
    show ?thesis
    proof (cases "cleaning raw")
      case (Inl e)
      with assms l raw show ?thesis
        by (auto simp: run_def dataset_shape_def and_then_def)
    next
      case (Inr df)
      obtain out3 ex3 where i: "insights df = (out3, ex3)"
        by (cases "insights df") auto
      from assms l raw Inr i show ?thesis
        by (cases ex3) (auto simp: run_def dataset_shape_def and_then_def)
    qed
  qed
qed

lemma insights_complete:
  assumes "insights df = (out, None)"
  shows "\<exists>hf. highest_fatality df = Inr hf
           \<and> HighestFatality (location hf) (case_fatality_rate hf) \<in> set out"
  using assms by (auto simp: insights_def Let_def split: option.splits sum.splits)

lemma not_flt_PInf: "\<not> flt (nan_to_ninf x) (nan_to_ninf PInf) \<Longrightarrow> x = PInf"
  by (cases x) (auto simp: nan_to_ninf_def isnan_def)

text \<open>
  Claim C10 (implicit): a row that after cleaning has 0 total cases and more than 0 total
  deaths gets the case fatality rate plus infinity: a value that is not NaN, NaN being
  what a row with finite counts gets only when cases and deaths are both 0. Nothing marks
  the infinity. A run that completes writes the table holding it to the cleaned export;
  and when the row is of the latest date, the run writes it to the snapshot export and
  prints plus infinity as the highest case fatality rate.
\<close>

theorem infinite_rate_flows_on:
  assumes "read_csv src = Inr raw" and "cleaning raw = Inr df" and "r \<in> set df"
    and "total_cases r = Fin 0" and "flt (Fin 0) (total_deaths r)"
  shows "case_fatality_rate r = PInf
       \<and> case_fatality_rate r \<noteq> NaN
       \<and> (\<forall>r' \<in> set df. \<forall>c d. total_cases r' = Fin c \<and> total_deaths r' = Fin d
              \<and> case_fatality_rate r' = NaN \<longrightarrow> c = 0 \<and> d = 0)
       \<and> (\<forall>out. run src = (out, None) \<longrightarrow>
              ToCsv ''data/covid_cleaned_data.csv'' df \<in> set out
            \<and> (r \<in> set (latest_data df) \<longrightarrow>
                  ToCsv ''data/covid_latest_snapshot.csv'' (latest_data df) \<in> set out
                \<and> (\<exists>l. HighestFatality l PInf \<in> set out)))"
proof -
  from assms(2) obtain t where t: "df = clean t"
    by (auto simp: cleaning_def cleaning_with_clean)
  have rate: "case_fatality_rate r' = fmul (fdiv (total_deaths r') (total_cases r')) (Fin 100)"
    if "r' \<in> set df" for r'
    using that clean_row_rates(1) t by blast
  have inf: "case_fatality_rate r = PInf"
    using rate[OF assms(3)] assms(4,5) by (cases "total_deaths r") auto
  have only: "\<forall>r' \<in> set df. \<forall>c d. total_cases r' = Fin c \<and> total_deaths r' = Fin d
              \<and> case_fatality_rate r' = NaN \<longrightarrow> c = 0 \<and> d = 0"
  proof (intro ballI allI impI)
    fix r' c d
    assume r': "r' \<in> set df"
      and "total_cases r' = Fin c \<and> total_deaths r' = Fin d \<and> case_fatality_rate r' = NaN"
    with rate[OF r'] have "fmul (fdiv (Fin d) (Fin c)) (Fin 100) = NaN"
      by simp
    then show "c = 0 \<and> d = 0"
      by (auto simp: fmul_100_nan split: if_splits)
  qed
  have flows: "ToCsv ''data/covid_cleaned_data.csv'' df \<in> set out
            \<and> (r \<in> set (latest_data df) \<longrightarrow>
                  ToCsv ''data/covid_latest_snapshot.csv'' (latest_data df) \<in> set out
                \<and> (\<exists>l. HighestFatality l PInf \<in> set out))"
    if "run src = (out, None)" for out
  proof -
    from run_complete[OF that] assms(1,2) obtain out3 where
      out3: "insights df = (out3, None)"
      and "out = [DataLoaded, DatasetShape (length (body raw)) (length (columns raw)),
                    CleanedShape (length df) 15] @ out3 @ export df"
      by auto
    then have out: "set out3 \<union> set (export df) \<subseteq> set out"
      by auto
    from insights_complete[OF out3] obtain hf where hf: "highest_fatality df = Inr hf"
      "HighestFatality (location hf) (case_fatality_rate hf) \<in> set out3"
      by blast
    have "case_fatality_rate hf = PInf" if "r \<in> set (latest_data df)"
    proof -
      from hf(1) have "\<not> flt (nan_to_ninf (case_fatality_rate hf))
          (nan_to_ninf (case_fatality_rate r))"
        using row_of_max_Inr that by (auto simp: highest_fatality_def)
      then show ?thesis
        using inf not_flt_PInf by simp
    qed
    with hf(2) out show ?thesis
      by (auto simp: export_def)
  qed
  from inf only flows show ?thesis
    by simp
qed

lemma deaths_without_cases_read:
  "read_csv (Some deaths_without_cases_file) = Inr deaths_without_cases_frame"
  by code_simp

lemma deaths_without_cases_run:
  "cleaning deaths_without_cases_frame = Inr deaths_without_cases_cleaned"
  by code_simp

lemma deaths_without_cases_insights_run:
  "insights deaths_without_cases_cleaned = (deaths_without_cases_insights, None)"
  by code_simp

lemma deaths_without_cases_whole_run:
  "run (Some deaths_without_cases_file) =
     ([DataLoaded, DatasetShape 2 13, CleanedShape 2 15] @ deaths_without_cases_insights
        @ export deaths_without_cases_cleaned, None)"
proof -
  have "load (Some deaths_without_cases_file)
      = ([DataLoaded], Inr (Some deaths_without_cases_frame))"
    by (simp add: load_def deaths_without_cases_read)
  moreover have "dataset_shape (Some deaths_without_cases_frame) = Inr (DatasetShape 2 13)"
    by code_simp
  moreover have "length deaths_without_cases_cleaned = 2"
    by (simp add: deaths_without_cases_cleaned_def)
  ultimately show ?thesis
    by (simp add: run_def and_then_def deaths_without_cases_run
        deaths_without_cases_insights_run)
qed

text \<open>C10 on the file of two lines: Kenya's rate is plus infinity, and the run prints it
  and exports it.\<close>

theorem infinite_rate_flows_on_witness:
  "read_csv (Some deaths_without_cases_file) = Inr deaths_without_cases_frame
   \<and> cleaning deaths_without_cases_frame = Inr deaths_without_cases_cleaned
   \<and> deaths_without_cases_cleaned ! 1 \<in> set deaths_without_cases_cleaned
   \<and> total_cases (deaths_without_cases_cleaned ! 1) = Fin 0
   \<and> flt (Fin 0) (total_deaths (deaths_without_cases_cleaned ! 1))
   \<and> case_fatality_rate (deaths_without_cases_cleaned ! 1) = PInf
   \<and> run (Some deaths_without_cases_file) =
       ([DataLoaded, DatasetShape 2 13, CleanedShape 2 15] @ deaths_without_cases_insights
          @ export deaths_without_cases_cleaned, None)
   \<and> deaths_without_cases_cleaned ! 1 \<in> set (latest_data deaths_without_cases_cleaned)
   \<and> HighestFatality ''Kenya'' PInf \<in> set deaths_without_cases_insights
   \<and> (\<exists>l. HighestFatality l PInf
          \<in> set ([DataLoaded, DatasetShape 2 13, CleanedShape 2 15]
                  @ deaths_without_cases_insights @ export deaths_without_cases_cleaned))
   \<and> ToCsv ''data/covid_cleaned_data.csv'' deaths_without_cases_cleaned
       \<in> set ([DataLoaded, DatasetShape 2 13, CleanedShape 2 15]
                  @ deaths_without_cases_insights @ export deaths_without_cases_cleaned)"
proof -
  have m: "deaths_without_cases_cleaned ! 1 \<in> set deaths_without_cases_cleaned"
    by (simp add: deaths_without_cases_cleaned_def)
  have c: "total_cases (deaths_without_cases_cleaned ! 1) = Fin 0"
    by (simp add: deaths_without_cases_cleaned_def)
  have d: "flt (Fin 0) (total_deaths (deaths_without_cases_cleaned ! 1))"
    by (simp add: deaths_without_cases_cleaned_def)
  have l: "deaths_without_cases_cleaned ! 1 \<in> set (latest_data deaths_without_cases_cleaned)"
    by code_simp
  have k: "HighestFatality ''Kenya'' PInf \<in> set deaths_without_cases_insights"
    by (simp add: deaths_without_cases_insights_def)
  note t = infinite_rate_flows_on[OF deaths_without_cases_read deaths_without_cases_run m c d]
  from t have "case_fatality_rate (deaths_without_cases_cleaned ! 1) = PInf"
    by blast
  moreover from t deaths_without_cases_whole_run l
  have "(\<exists>l. HighestFatality l PInf
          \<in> set ([DataLoaded, DatasetShape 2 13, CleanedShape 2 15]
                  @ deaths_without_cases_insights @ export deaths_without_cases_cleaned))
   \<and> ToCsv ''data/covid_cleaned_data.csv'' deaths_without_cases_cleaned
       \<in> set ([DataLoaded, DatasetShape 2 13, CleanedShape 2 15]
                  @ deaths_without_cases_insights @ export deaths_without_cases_cleaned)"
    by blast
  ultimately show ?thesis
    using deaths_without_cases_read deaths_without_cases_run m c d
      deaths_without_cases_whole_run l k
    by blast
qed

end
